theory Spec2Isabelle
  imports Complex_Main
begin

section \<open>The LLVM/Clang/LLD selftest workflows of \<^verbatim>\<open>meta/lib/oeqa/selftest/cases/clang.py\<close>\<close>

text \<open>
  The two test methods of \<^verbatim>\<open>LLVMClangLLDNativeTests\<close> drive external collaborators
  (the build tool, the system clock, the logger, the QEMU runner, the NFS server) in a
  fixed order. The model makes every call to a collaborator an event of a chronological
  trace, takes the collaborators' answers from an environment, and returns every Python
  exception as a value.
\<close>

subsection \<open>Python values\<close>

text \<open>The exceptions that reach the caller of a test method.\<close>

datatype exn =
    AssertionError string
  | Exception string

text \<open>
  \<^verbatim>\<open>int(x)\<close> of a Python float truncates towards zero. Clock readings are modelled as
  exact reals.
\<close>

definition py_int :: "real \<Rightarrow> int" where
  "py_int x = (if x < 0 then \<lceil>x\<rceil> else \<lfloor>x\<rfloor>)"

text \<open>\<^verbatim>\<open>str(n)\<close> of a Python integer, as the f-strings apply it to the port numbers.\<close>

definition digit_char :: "nat \<Rightarrow> char" where
  "digit_char d = ''0123456789'' ! d"

function str_nat :: "nat \<Rightarrow> string" where
  "str_nat n = (if n < 10 then [digit_char n] else str_nat (n div 10) @ [digit_char (n mod 10)])"
  by pat_completeness auto
termination
  by (relation "measure (\<lambda>n. n)") auto

declare str_nat.simps [simp del]

definition str_int :: "int \<Rightarrow> string" where
  "str_int i = (if i < 0 then CHR ''-'' # str_nat (nat (- i)) else str_nat (nat i))"

text \<open>
  The non-ASCII characters of the source's messages, in UTF-8: the em dash of
  \<^verbatim>\<open>failed -- see log above\<close> and the arrow of the status line.
\<close>

definition emdash :: string where
  "emdash = [CHR 0xE2, CHR 0x80, CHR 0x94]"

definition arrow :: string where
  "arrow = [CHR 0xE2, CHR 0x86, CHR 0x92]"

definition dquote :: string where
  "dquote = [CHR 0x22]"

definition squote :: string where
  "squote = [CHR 0x27]"

subsection \<open>Events, environment and state\<close>

datatype level = INFO | ERROR

text \<open>A logging call keeps its format string and its arguments apart, as the logger does.\<close>

datatype arg = S string | I int

datatype resource = VM | Export

datatype event =
    Log level string "arg list"
  | Clock real
  | Bitbake string "string option"
  | GetVar string string
  | Acquire resource
  | AcquireFailed resource
  | Release resource
  | Run string "nat option" int string

text \<open>
  The collaborators. \<open>time_time k\<close> is the \<open>k\<close>-th reading of \<^verbatim>\<open>time.time()\<close>;
  \<open>bitbake k cmd\<close> is the outcome of the \<open>k\<close>-th call of \<^verbatim>\<open>bitbake\<close>, \<open>None\<close> when it
  returns and \<open>Some cause\<close> when it raises an exception whose text is \<open>cause\<close>;
  \<open>qemu_run k cmd timeout\<close> is the exit status and output of the \<open>k\<close>-th command run in
  the virtual machine. \<open>runqemu\<close> answers with the server address of the started machine,
  \<open>unfs_server\<close> with the two ports of the export; both may raise instead.
  \<open>py_repr\<close> stands for Python's \<^verbatim>\<open>repr\<close> on strings.
\<close>

record env =
  time_time :: "nat \<Rightarrow> real"
  bitbake :: "nat \<Rightarrow> string \<Rightarrow> string option"
  get_bb_var :: "string \<Rightarrow> string"
  runqemu :: "string \<Rightarrow> string \<Rightarrow> string \<Rightarrow> exn + string"
  unfs_server :: "string \<Rightarrow> exn + (int \<times> int)"
  qemu_run :: "nat \<Rightarrow> string \<Rightarrow> nat option \<Rightarrow> int \<times> string"
  py_repr :: "string \<Rightarrow> string"

record state =
  trace :: "event list"
  clock_reads :: nat
  bitbake_calls :: nat
  run_calls :: nat
  exit_stack :: "resource list"

definition init_state :: state where
  "init_state = \<lparr>trace = [], clock_reads = 0, bitbake_calls = 0, run_calls = 0, exit_stack = []\<rparr>"

type_synonym 'a prog = "state \<Rightarrow> (exn + 'a) \<times> state"

definition returnp :: "'a \<Rightarrow> 'a prog" where
  "returnp x s = (Inr x, s)"

definition raisep :: "exn \<Rightarrow> 'a prog" where
  "raisep e s = (Inl e, s)"

definition bindp :: "'a prog \<Rightarrow> ('a \<Rightarrow> 'b prog) \<Rightarrow> 'b prog" where
  "bindp m f s = (case m s of (Inl e, s') \<Rightarrow> (Inl e, s') | (Inr x, s') \<Rightarrow> f x s')"

definition emit :: "event \<Rightarrow> unit prog" where
  "emit ev s = (Inr (), s\<lparr>trace := trace s @ [ev]\<rparr>)"

definition logger_info :: "string \<Rightarrow> arg list \<Rightarrow> unit prog" where
  "logger_info fmt args = emit (Log INFO fmt args)"

definition logger_error :: "string \<Rightarrow> arg list \<Rightarrow> unit prog" where
  "logger_error fmt args = emit (Log ERROR fmt args)"

definition now :: "env \<Rightarrow> real prog" where
  "now E s = (let t = time_time E (clock_reads s)
              in (Inr t, s\<lparr>trace := trace s @ [Clock t], clock_reads := Suc (clock_reads s)\<rparr>))"

text \<open>
  A call of \<^verbatim>\<open>bitbake\<close> under \<^verbatim>\<open>try ... except Exception as e\<close>: the result is the
  caught exception's text, if any.
\<close>

definition try_bitbake :: "env \<Rightarrow> string \<Rightarrow> string option prog" where
  "try_bitbake E cmd s = (let r = bitbake E (bitbake_calls s) cmd
     in (Inr r, s\<lparr>trace := trace s @ [Bitbake cmd r], bitbake_calls := Suc (bitbake_calls s)\<rparr>))"

subsection \<open>The timed steps\<close>

definition run_native_check_task :: "env \<Rightarrow> string \<Rightarrow> string \<Rightarrow> int prog" where
  "run_native_check_task E recipe task =
     bindp (logger_info ''Running bitbake %s -c %s'' [S recipe, S task]) (\<lambda>_.
     bindp (now E) (\<lambda>start_time.
     bindp (try_bitbake E (recipe @ '' -c '' @ task)) (\<lambda>r.
     bindp (case r of
              None \<Rightarrow> returnp True
            | Some e \<Rightarrow> bindp (logger_error ''bitbake %s -c %s FAILED: %s'' [S recipe, S task, S e])
                          (\<lambda>_. returnp False)) (\<lambda>passed.
     bindp (now E) (\<lambda>end_time.
     let duration = py_int (end_time - start_time);
         status = (if passed then ''PASSED'' else ''FAILED'')
     in
     bindp (logger_info (''%s -c %s '' @ arrow @ '' %s (%d seconds)'')
              [S recipe, S task, S status, I duration]) (\<lambda>_.
     if \<not> passed
     then raisep (AssertionError (recipe @ '' -c '' @ task @ '' failed '' @ emdash @ '' see log above''))
     else returnp duration))))))"

definition run_target_build :: "env \<Rightarrow> string \<Rightarrow> int prog" where
  "run_target_build E recipe =
     bindp (logger_info ''Running bitbake %s'' [S recipe]) (\<lambda>_.
     bindp (now E) (\<lambda>start_time.
     bindp (try_bitbake E recipe) (\<lambda>r.
     bindp (case r of
              None \<Rightarrow> returnp True
            | Some e \<Rightarrow> bindp (logger_error ''bitbake %s FAILED: %s'' [S recipe, S e])
                          (\<lambda>_. returnp False)) (\<lambda>passed.
     bindp (now E) (\<lambda>end_time.
     let duration = py_int (end_time - start_time);
         status = (if passed then ''PASSED'' else ''FAILED'')
     in
     bindp (logger_info (''%s '' @ arrow @ '' %s (%d seconds)'')
              [S recipe, S status, I duration]) (\<lambda>_.
     if \<not> passed
     then raisep (AssertionError (recipe @ '' build failed '' @ emdash @ '' see log above''))
     else returnp duration))))))"

subsection \<open>The native workflow\<close>

definition banner :: string where
  "banner = replicate 70 (CHR ''='')"

definition test_native_llvm_clang_lld_lit_suites :: "env \<Rightarrow> unit prog" where
  "test_native_llvm_clang_lld_lit_suites E =
     bindp (logger_info banner []) (\<lambda>_.
     bindp (logger_info ''STARTING LLVM + CLANG + LLD NATIVE LIT TEST SUITES'' []) (\<lambda>_.
     bindp (logger_info banner []) (\<lambda>_.
     bindp (now E) (\<lambda>total_start.
     bindp (run_native_check_task E ''llvm-native'' ''check_llvm'') (\<lambda>llvm_duration.
     bindp (run_native_check_task E ''clang-native'' ''check_clang'') (\<lambda>clang_duration.
     bindp (run_native_check_task E ''lld-native'' ''check_lld'') (\<lambda>lld_duration.
     bindp (now E) (\<lambda>total_end.
     let total_duration = py_int (total_end - total_start) in
     bindp (logger_info banner []) (\<lambda>_.
     bindp (logger_info ''ALL LIT TEST SUITES COMPLETED SUCCESSFULLY'' []) (\<lambda>_.
     bindp (logger_info ''  llvm-native  -c check_llvm  : %d s'' [I llvm_duration]) (\<lambda>_.
     bindp (logger_info ''  clang-native -c check_clang : %d s'' [I clang_duration]) (\<lambda>_.
     bindp (logger_info ''  lld-native   -c check_lld   : %d s'' [I lld_duration]) (\<lambda>_.
     bindp (logger_info ''  TOTAL EXECUTION TIME        : %d s'' [I total_duration]) (\<lambda>_.
     bindp (logger_info banner []) (\<lambda>_.
     returnp ())))))))))))))))"

subsection \<open>The resource scope and the remote session\<close>

text \<open>
  \<^verbatim>\<open>contextlib.ExitStack\<close>: \<^verbatim>\<open>enter_context\<close> enters a context manager and, when that
  succeeds, pushes its exit on the stack; leaving the \<^verbatim>\<open>with\<close> block, normally or by an
  exception, runs the pushed exits last-in first-out and then lets the block's outcome
  through. The head of \<open>exit_stack\<close> is the most recently entered resource.
\<close>

text \<open>
  Modelled from the spec: the context managers \<^verbatim>\<open>runqemu\<close> (oeqa.utils.commands) and
  \<^verbatim>\<open>unfs_server\<close> (oeqa.utils.nfs), which this source imports. Entering one either
  raises, acquiring nothing, or yields its handle; its exit releases the resource,
  raises nothing and does not swallow the exception passing through.
\<close>

definition enter_runqemu :: "env \<Rightarrow> string \<Rightarrow> string \<Rightarrow> string \<Rightarrow> string prog" where
  "enter_runqemu E pn runqemuparams qemuparams s =
     (case runqemu E pn runqemuparams qemuparams of
        Inl e \<Rightarrow> (Inl e, s\<lparr>trace := trace s @ [AcquireFailed VM]\<rparr>)
      | Inr server_ip \<Rightarrow>
          (Inr server_ip, s\<lparr>trace := trace s @ [Acquire VM], exit_stack := VM # exit_stack s\<rparr>))"

definition enter_unfs_server :: "env \<Rightarrow> string \<Rightarrow> (int \<times> int) prog" where
  "enter_unfs_server E dir s =
     (case unfs_server E dir of
        Inl e \<Rightarrow> (Inl e, s\<lparr>trace := trace s @ [AcquireFailed Export]\<rparr>)
      | Inr ports \<Rightarrow>
          (Inr ports, s\<lparr>trace := trace s @ [Acquire Export], exit_stack := Export # exit_stack s\<rparr>))"

definition with_ExitStack :: "'a prog \<Rightarrow> 'a prog" where
  "with_ExitStack body s =
     (case body (s\<lparr>exit_stack := []\<rparr>) of
        (r, s') \<Rightarrow> (r, s'\<lparr>trace := trace s' @ map Release (exit_stack s'), exit_stack := []\<rparr>))"

definition lookup_var :: "env \<Rightarrow> string \<Rightarrow> string prog" where
  "lookup_var E var s = (let v = get_bb_var E var in (Inr v, s\<lparr>trace := trace s @ [GetVar var v]\<rparr>))"

definition run :: "env \<Rightarrow> string \<Rightarrow> nat option \<Rightarrow> (int \<times> string) prog" where
  "run E cmd timeout s =
     (case qemu_run E (run_calls s) cmd timeout of
        (status, output) \<Rightarrow>
          (Inr (status, output),
           s\<lparr>trace := trace s @ [Run cmd timeout status output], run_calls := Suc (run_calls s)\<rparr>))"

text \<open>
  \<^verbatim>\<open>unittest\<close>'s \<^verbatim>\<open>assertEqual(first, second, msg)\<close> on integers, with the default
  \<^verbatim>\<open>longMessage\<close>.
\<close>

definition assertEqual :: "int \<Rightarrow> int \<Rightarrow> string \<Rightarrow> unit prog" where
  "assertEqual first second msg =
     (if first = second then returnp ()
      else raisep (AssertionError (str_int first @ '' != '' @ str_int second @ '' : '' @ msg)))"

subsection \<open>The target workflow\<close>

text \<open>The commands sent to the virtual machine, as the source builds them from \<^verbatim>\<open>tmpdir\<close>.\<close>

definition build_dir :: "string \<Rightarrow> string \<Rightarrow> string" where
  "build_dir tmpdir component = tmpdir @ ''/work/x86-64-v3-oe-linux/'' @ component @ ''/21.1.4/build''"

definition mkdir_cmd :: "string \<Rightarrow> string" where
  "mkdir_cmd tmpdir = ''mkdir -p '' @ dquote @ tmpdir @ dquote"

definition mount_cmd :: "int \<Rightarrow> int \<Rightarrow> string \<Rightarrow> string \<Rightarrow> string" where
  "mount_cmd nfsport mountport server_ip tmpdir =
     ''mount -o noac,nfsvers=3,port='' @ str_int nfsport @ '',udp,mountport='' @ str_int mountport @ '' ''
     @ dquote @ server_ip @ '':'' @ tmpdir @ dquote @ '' '' @ dquote @ tmpdir @ dquote"

definition lit_cmd_lld :: "string \<Rightarrow> string" where
  "lit_cmd_lld tmpdir =
     ''cd '' @ build_dir tmpdir ''lld'' @ ''/bin && ./llvm-lit -v --filter-out '' @ squote
     @ ''COFF|MachO|MinGW'' @ squote @ '' -j1 ../test -o /tmp/lld-target-results.json''"

definition lit_cmd_llvm :: "string \<Rightarrow> string" where
  "lit_cmd_llvm tmpdir =
     ''cd '' @ build_dir tmpdir ''llvm'' @ ''/bin && ./llvm-lit --filter-out '' @ squote
     @ ''COFF|MachO|MinGW'' @ squote @ '' -j1 ../test -o /tmp/llvm-target-results.json''"

definition lit_cmd_clang :: "string \<Rightarrow> string" where
  "lit_cmd_clang tmpdir =
     ''cd '' @ build_dir tmpdir ''clang'' @ ''/bin && ./llvm-lit -j2 ../test -o /tmp/clang-target-results.json''"

definition cp_cmd :: "string \<Rightarrow> string \<Rightarrow> string" where
  "cp_cmd tmpdir component =
     ''cp /tmp/'' @ component @ ''-target-results.json '' @ build_dir tmpdir component
     @ ''/'' @ component @ ''-target-results.log''"

text \<open>The block of the \<^verbatim>\<open>with\<close> statement (lines 110 to 200 of the source).\<close>

definition target_scope_body :: "env \<Rightarrow> unit prog" where
  "target_scope_body E =
     bindp (lookup_var E ''TMPDIR'') (\<lambda>tmpdir.
     bindp (enter_runqemu E ''core-image-minimal'' ''nographic'' ''-m 8192'') (\<lambda>server_ip.
     bindp (enter_unfs_server E tmpdir) (\<lambda>(nfsport, mountport).
     bindp (run E ''uname'' None) (\<lambda>(status, _).
     bindp (assertEqual status 0 ''QEMU SSH check failed'') (\<lambda>_.
     bindp (run E (mkdir_cmd tmpdir) None) (\<lambda>(status, _).
     if status \<noteq> 0 then raisep (Exception ''Failed to setup NFS mount directory on target'') else
     bindp (run E (mount_cmd nfsport mountport server_ip tmpdir) None) (\<lambda>(status, output).
     if status \<noteq> 0
     then raisep (Exception (''Failed to setup NFS mount on target ('' @ py_repr E output @ '')'')) else
     bindp (logger_info ''Successfully mounted'' []) (\<lambda>_.
     bindp (logger_info ''Running llvm-lit directly on target'' []) (\<lambda>_.
     bindp (logger_info (''  LIT BIN  : '' @ build_dir tmpdir ''lld'' @ ''/bin/llvm-lit'') []) (\<lambda>_.
     bindp (logger_info (''  TESTDIR  : '' @ build_dir tmpdir ''lld'' @ ''/test'') []) (\<lambda>_.
     bindp (logger_info (''  LOGFILE  : /tmp/lld-target-results.json'') []) (\<lambda>_.
     bindp (run E (lit_cmd_lld tmpdir) None) (\<lambda>(status, output).
     if status \<noteq> 0 then
       bindp (logger_error ''llvm-lit tests FAILED on target for lld'' []) (\<lambda>_.
       bindp (logger_error output []) (\<lambda>_.
       raisep (AssertionError (''llvm-lit failed on target for lld '' @ emdash @ '' see log above''))))
     else
     bindp (run E (cp_cmd tmpdir ''lld'') None) (\<lambda>(status, _).
     if status \<noteq> 0 then raisep (AssertionError ''Failed to copy LLD lit results back to host'') else
     bindp (logger_info (''  LIT BIN  : '' @ build_dir tmpdir ''llvm'' @ ''/bin/llvm-lit'') []) (\<lambda>_.
     bindp (logger_info (''  TESTDIR  : '' @ build_dir tmpdir ''llvm'' @ ''/test'') []) (\<lambda>_.
     bindp (logger_info (''  LOGFILE  : /tmp/llvm-target-results.json'') []) (\<lambda>_.
     bindp (run E (lit_cmd_llvm tmpdir) None) (\<lambda>(status, output).
     if status \<noteq> 0 then
       bindp (logger_error ''llvm-lit tests FAILED on target for llvm'' []) (\<lambda>_.
       bindp (logger_error output []) (\<lambda>_.
       raisep (AssertionError (''llvm-lit failed on target for llvm '' @ emdash @ '' see log above''))))
     else
     bindp (run E (cp_cmd tmpdir ''llvm'') None) (\<lambda>(status, _).
     if status \<noteq> 0 then raisep (AssertionError ''Failed to copy llvm lit results back to host'') else
     bindp (logger_info (''  LIT BIN  : '' @ build_dir tmpdir ''clang'' @ ''/bin/llvm-lit'') []) (\<lambda>_.
     bindp (logger_info (''  TESTDIR  : '' @ build_dir tmpdir ''clang'' @ ''/test'') []) (\<lambda>_.
     bindp (logger_info (''  LOGFILE  : /tmp/clang-target-results.json'') []) (\<lambda>_.
     bindp (run E (lit_cmd_clang tmpdir) (Some 1000)) (\<lambda>(status, output).
     if status \<noteq> 0 then
       bindp (logger_error ''llvm-lit tests FAILED on target for clang'' []) (\<lambda>_.
       bindp (logger_error output []) (\<lambda>_.
       raisep (AssertionError (''llvm-lit failed on target for clang '' @ emdash @ '' see log above''))))
     else
     bindp (run E (cp_cmd tmpdir ''clang'') None) (\<lambda>(status, _).
     if status \<noteq> 0 then raisep (AssertionError ''Failed to copy LLVM lit results back to host'') else
     bindp (logger_info ''llvm-lit tests completed successfully on target'' []) (\<lambda>_.
     logger_info output [] )))))))))))))))))))))))))"

text \<open>The four full builds and their summary (lines 88 to 106 of the source).\<close>

definition target_builds :: "env \<Rightarrow> unit prog" where
  "target_builds E =
     bindp (logger_info banner []) (\<lambda>_.
     bindp (logger_info ''STARTING TARGET LLVM/CLANG/LLD BUILDS'' []) (\<lambda>_.
     bindp (logger_info banner []) (\<lambda>_.
     bindp (now E) (\<lambda>total_start.
     bindp (run_target_build E ''llvm'') (\<lambda>llvm_duration.
     bindp (run_target_build E ''clang'') (\<lambda>clang_duration.
     bindp (run_target_build E ''lld'') (\<lambda>lld_duration.
     bindp (run_target_build E ''core-image-minimal'') (\<lambda>cim_duration.
     bindp (now E) (\<lambda>total_end.
     let total_duration = py_int (total_end - total_start) in
     bindp (logger_info banner []) (\<lambda>_.
     bindp (logger_info ''ALL TARGET BUILDS COMPLETED SUCCESSFULLY'' []) (\<lambda>_.
     bindp (logger_info ''  llvm  build : %d s'' [I llvm_duration]) (\<lambda>_.
     bindp (logger_info ''  clang build : %d s'' [I clang_duration]) (\<lambda>_.
     bindp (logger_info ''  lld   build : %d s'' [I lld_duration]) (\<lambda>_.
     bindp (logger_info ''  core-image-minimal build : %d s'' [I cim_duration]) (\<lambda>_.
     bindp (logger_info ''  TOTAL BUILD TIME : %d s'' [I total_duration]) (\<lambda>_.
     logger_info banner []))))))))))))))))"

definition test_target_llvm_clang_lld_builds :: "env \<Rightarrow> unit prog" where
  "test_target_llvm_clang_lld_builds E =
     bindp (target_builds E) (\<lambda>_.
     bindp (with_ExitStack (target_scope_body E)) (\<lambda>_.
     returnp ()))"

subsection \<open>Observations on a trace\<close>

text \<open>The actions of a run: every event that is neither a log line nor a clock reading.\<close>

fun is_action :: "event \<Rightarrow> bool" where
  "is_action (Log _ _ _) = False"
| "is_action (Clock _) = False"
| "is_action _ = True"

definition actions :: "event list \<Rightarrow> event list" where
  "actions tr = filter is_action tr"

fun is_run :: "event \<Rightarrow> bool" where
  "is_run (Run _ _ _ _) = True"
| "is_run _ = False"

text \<open>The arguments of the four target builds and of the three native checks, in call order.\<close>

definition build_recipes :: "string list" where
  "build_recipes = [''llvm'', ''clang'', ''lld'', ''core-image-minimal'']"

definition native_checks :: "(string \<times> string) list" where
  "native_checks = [(''llvm-native'', ''check_llvm''), (''clang-native'', ''check_clang''),
                    (''lld-native'', ''check_lld'')]"

definition check_cmd :: "string \<times> string \<Rightarrow> string" where
  "check_cmd rt = fst rt @ '' -c '' @ snd rt"

subsection \<open>Concrete environments\<close>

text \<open>An environment in which every collaborator succeeds; the clock advances by 3.5 s per reading.\<close>

definition ok_env :: env where
  "ok_env = \<lparr>time_time = (\<lambda>k. real k * 7 / 2), bitbake = (\<lambda>k cmd. None),
     get_bb_var = (\<lambda>v. ''/build/tmp''),
     runqemu = (\<lambda>pn rp qp. Inr ''192.168.7.1''),
     unfs_server = (\<lambda>d. Inr (2049, 3049)),
     qemu_run = (\<lambda>k cmd t. (0, ''ok'')),
     py_repr = (\<lambda>x. squote @ x @ squote)\<rparr>"

text \<open>The build of \<^verbatim>\<open>lld\<close> fails; everything else succeeds.\<close>

definition lld_build_fails_env :: env where
  "lld_build_fails_env =
     ok_env\<lparr>bitbake := (\<lambda>k cmd. if cmd = ''lld'' then Some ''do_compile failed'' else None)\<rparr>"

text \<open>The native check of \<^verbatim>\<open>clang-native\<close> fails; everything else succeeds.\<close>

definition clang_check_fails_env :: env where
  "clang_check_fails_env =
     ok_env\<lparr>bitbake := (\<lambda>k cmd. if k = 1 then Some ''3 tests failed'' else None)\<rparr>"

text \<open>
  The numbers reported by the summary lines of a given format: the argument of every
  \<^verbatim>\<open>logger.info(fmt, d)\<close> in the trace, in order.
\<close>

fun reported :: "string \<Rightarrow> event list \<Rightarrow> int list" where
  "reported fmt [] = []"
| "reported fmt (Log INFO f [I d] # tr) = (if f = fmt then d # reported fmt tr else reported fmt tr)"
| "reported fmt (_ # tr) = reported fmt tr"

text \<open>
  Every build succeeds; the three native checks take 10.25 s, 20.25 s and 30.5 s, and a
  quarter of a second passes between the workflow's first reading and the first step.
\<close>

definition quarter_env :: env where
  "quarter_env = ok_env\<lparr>time_time :=
     (\<lambda>k. [0, 1 / 4, 21 / 2, 21 / 2, 123 / 4, 123 / 4, 245 / 4, 245 / 4] ! k)\<rparr>"

text \<open>Every build succeeds; the system clock is set back by half a second after the first reading.\<close>

definition clock_back_env :: env where
  "clock_back_env = ok_env\<lparr>time_time := (\<lambda>k. if k = 0 then 21 / 2 else 10)\<rparr>"

subsection \<open>The workflow as a chain of gated steps\<close>

text \<open>
  Both workflows are straight-line: each step performs one action and either lets the
  next step start or raises. A step is described here by its action and the exception
  it raises, if any; \<open>gated\<close> gives the actions of a chain of steps, which stops after
  the first step that raises, and \<open>first_failure\<close> the exception of that step.
\<close>

fun gated :: "(event \<times> exn option) list \<Rightarrow> event list" where
  "gated [] = []"
| "gated ((ev, r) # rest) = ev # (case r of None \<Rightarrow> gated rest | Some e \<Rightarrow> [])"

fun first_failure :: "(event \<times> exn option) list \<Rightarrow> exn option" where
  "first_failure [] = None"
| "first_failure ((ev, r) # rest) = (case r of None \<Rightarrow> first_failure rest | Some e \<Rightarrow> Some e)"

definition outcome :: "exn option \<Rightarrow> exn + unit" where
  "outcome r = (case r of None \<Rightarrow> Inr () | Some e \<Rightarrow> Inl e)"

text \<open>The step made by a remote command: it raises \<open>failure output\<close> on a non-zero status.\<close>

definition remote_step :: "string \<Rightarrow> nat option \<Rightarrow> int \<times> string \<Rightarrow> (string \<Rightarrow> exn) \<Rightarrow> event \<times> exn option" where
  "remote_step cmd timeout answer failure =
     (Run cmd timeout (fst answer) (snd answer),
      if fst answer \<noteq> 0 then Some (failure (snd answer)) else None)"

text \<open>
  The nine remote commands of the target workflow, for the given answers of the
  virtual machine, in the order of the source.
\<close>

definition remote_steps :: "env \<Rightarrow> string \<Rightarrow> string \<Rightarrow> int \<Rightarrow> int \<Rightarrow> (int \<times> string) list
    \<Rightarrow> (event \<times> exn option) list" where
  "remote_steps E tmpdir server_ip nfsport mountport a =
     [remote_step ''uname'' None (a ! 0)
        (\<lambda>_. AssertionError (str_int (fst (a ! 0)) @ '' != 0 : QEMU SSH check failed'')),
      remote_step (mkdir_cmd tmpdir) None (a ! 1)
        (\<lambda>_. Exception ''Failed to setup NFS mount directory on target''),
      remote_step (mount_cmd nfsport mountport server_ip tmpdir) None (a ! 2)
        (\<lambda>output. Exception (''Failed to setup NFS mount on target ('' @ py_repr E output @ '')'')),
      remote_step (lit_cmd_lld tmpdir) None (a ! 3)
        (\<lambda>_. AssertionError (''llvm-lit failed on target for lld '' @ emdash @ '' see log above'')),
      remote_step (cp_cmd tmpdir ''lld'') None (a ! 4)
        (\<lambda>_. AssertionError ''Failed to copy LLD lit results back to host''),
      remote_step (lit_cmd_llvm tmpdir) None (a ! 5)
        (\<lambda>_. AssertionError (''llvm-lit failed on target for llvm '' @ emdash @ '' see log above'')),
      remote_step (cp_cmd tmpdir ''llvm'') None (a ! 6)
        (\<lambda>_. AssertionError ''Failed to copy llvm lit results back to host''),
      remote_step (lit_cmd_clang tmpdir) (Some 1000) (a ! 7)
        (\<lambda>_. AssertionError (''llvm-lit failed on target for clang '' @ emdash @ '' see log above'')),
      remote_step (cp_cmd tmpdir ''clang'') None (a ! 8)
        (\<lambda>_. AssertionError ''Failed to copy LLVM lit results back to host'')]"

text \<open>The answers of the virtual machine to the nine commands, by call number.\<close>

definition remote_answers :: "env \<Rightarrow> string \<Rightarrow> string \<Rightarrow> int \<Rightarrow> int \<Rightarrow> (int \<times> string) list" where
  "remote_answers E tmpdir server_ip nfsport mountport =
     [qemu_run E 0 ''uname'' None,
      qemu_run E 1 (mkdir_cmd tmpdir) None,
      qemu_run E 2 (mount_cmd nfsport mountport server_ip tmpdir) None,
      qemu_run E 3 (lit_cmd_lld tmpdir) None,
      qemu_run E 4 (cp_cmd tmpdir ''lld'') None,
      qemu_run E 5 (lit_cmd_llvm tmpdir) None,
      qemu_run E 6 (cp_cmd tmpdir ''llvm'') None,
      qemu_run E 7 (lit_cmd_clang tmpdir) (Some 1000),
      qemu_run E 8 (cp_cmd tmpdir ''clang'') None]"

text \<open>All four target builds succeed.\<close>

definition builds_pass :: "env \<Rightarrow> bool" where
  "builds_pass E \<longleftrightarrow> bitbake E 0 ''llvm'' = None \<and> bitbake E 1 ''clang'' = None
     \<and> bitbake E 2 ''lld'' = None \<and> bitbake E 3 ''core-image-minimal'' = None"

text \<open>The resources acquired and released along a trace, in the order of the events.\<close>

fun acquired :: "event list \<Rightarrow> resource list" where
  "acquired [] = []"
| "acquired (Acquire r # tr) = r # acquired tr"
| "acquired (_ # tr) = acquired tr"

fun released :: "event list \<Rightarrow> resource list" where
  "released [] = []"
| "released (Release r # tr) = r # released tr"
| "released (_ # tr) = released tr"

fun is_resource_event :: "event \<Rightarrow> bool" where
  "is_resource_event (Acquire _) = True"
| "is_resource_event (Release _) = True"
| "is_resource_event _ = False"

text \<open>The export server fails to start; everything else succeeds.\<close>

definition export_fails_env :: env where
  "export_fails_env = ok_env\<lparr>unfs_server := (\<lambda>d. Inl (Exception ''unfsd did not start''))\<rparr>"

text \<open>The test harness of \<^verbatim>\<open>llvm\<close> exits with status 1; everything else succeeds.\<close>

definition llvm_lit_fails_env :: env where
  "llvm_lit_fails_env = ok_env\<lparr>qemu_run := (\<lambda>k cmd t. if k = 5 then (1, ''FAIL: x.ll'') else (0, ''ok''))\<rparr>"

text \<open>The remote commands issued during a run, with their answers, in order.\<close>

definition runs :: "event list \<Rightarrow> event list" where
  "runs tr = filter is_run tr"

text \<open>The reachability check exits with status 1; everything else succeeds.\<close>

definition uname_fails_env :: env where
  "uname_fails_env =
     ok_env\<lparr>qemu_run := (\<lambda>k cmd t. if k = 0 then (1, ''connection refused'') else (0, ''ok''))\<rparr>"

text \<open>The copy of the \<^verbatim>\<open>lld\<close> results exits with status 1; everything else succeeds.\<close>

definition lld_copy_fails_env :: env where
  "lld_copy_fails_env =
     ok_env\<lparr>qemu_run := (\<lambda>k cmd t. if k = 4 then (1, ''cp: write error'') else (0, ''ok''))\<rparr>"

text \<open>The copy of the \<^verbatim>\<open>clang\<close> results exits with status 1; everything else succeeds.\<close>

definition clang_copy_fails_env :: env where
  "clang_copy_fails_env =
     ok_env\<lparr>qemu_run := (\<lambda>k cmd t. if k = 8 then (1, ''cp: write error'') else (0, ''ok''))\<rparr>"

section \<open>Verification\<close>


lemmas prog_defs = returnp_def raisep_def bindp_def emit_def logger_info_def logger_error_def
  now_def try_bitbake_def Let_def

lemma run_target_build_pass:
  "bitbake E b recipe = None \<Longrightarrow>
   run_target_build E recipe
     \<lparr>trace = tr, clock_reads = c, bitbake_calls = b, run_calls = r, exit_stack = st\<rparr> =
     (Inr (py_int (time_time E (Suc c) - time_time E c)),
      \<lparr>trace = tr @
         [Log INFO ''Running bitbake %s'' [S recipe], Clock (time_time E c), Bitbake recipe None,
          Clock (time_time E (Suc c)),
          Log INFO (''%s '' @ arrow @ '' %s (%d seconds)'')
            [S recipe, S ''PASSED'', I (py_int (time_time E (Suc c) - time_time E c))]],
       clock_reads = Suc (Suc c), bitbake_calls = Suc b, run_calls = r, exit_stack = st\<rparr>)"
  by (simp add: run_target_build_def prog_defs Let_def)

lemma run_target_build_fail:
  "bitbake E b recipe = Some cause \<Longrightarrow>
   run_target_build E recipe
     \<lparr>trace = tr, clock_reads = c, bitbake_calls = b, run_calls = r, exit_stack = st\<rparr> =
     (Inl (AssertionError (recipe @ '' build failed '' @ emdash @ '' see log above'')),
      \<lparr>trace = tr @
         [Log INFO ''Running bitbake %s'' [S recipe], Clock (time_time E c),
          Bitbake recipe (Some cause),
          Log ERROR ''bitbake %s FAILED: %s'' [S recipe, S cause],
          Clock (time_time E (Suc c)),
          Log INFO (''%s '' @ arrow @ '' %s (%d seconds)'')
            [S recipe, S ''FAILED'', I (py_int (time_time E (Suc c) - time_time E c))]],
       clock_reads = Suc (Suc c), bitbake_calls = Suc b, run_calls = r, exit_stack = st\<rparr>)"
  by (simp add: run_target_build_def prog_defs Let_def)

lemma run_native_check_task_pass:
  "bitbake E b (recipe @ '' -c '' @ task) = None \<Longrightarrow>
   run_native_check_task E recipe task
     \<lparr>trace = tr, clock_reads = c, bitbake_calls = b, run_calls = r, exit_stack = st\<rparr> =
     (Inr (py_int (time_time E (Suc c) - time_time E c)),
      \<lparr>trace = tr @
         [Log INFO ''Running bitbake %s -c %s'' [S recipe, S task], Clock (time_time E c),
          Bitbake (recipe @ '' -c '' @ task) None,
          Clock (time_time E (Suc c)),
          Log INFO (''%s -c %s '' @ arrow @ '' %s (%d seconds)'')
            [S recipe, S task, S ''PASSED'', I (py_int (time_time E (Suc c) - time_time E c))]],
       clock_reads = Suc (Suc c), bitbake_calls = Suc b, run_calls = r, exit_stack = st\<rparr>)"
  by (simp add: run_native_check_task_def prog_defs Let_def)

lemma run_native_check_task_fail:
  "bitbake E b (recipe @ '' -c '' @ task) = Some cause \<Longrightarrow>
   run_native_check_task E recipe task
     \<lparr>trace = tr, clock_reads = c, bitbake_calls = b, run_calls = r, exit_stack = st\<rparr> =
     (Inl (AssertionError (recipe @ '' -c '' @ task @ '' failed '' @ emdash @ '' see log above'')),
      \<lparr>trace = tr @
         [Log INFO ''Running bitbake %s -c %s'' [S recipe, S task], Clock (time_time E c),
          Bitbake (recipe @ '' -c '' @ task) (Some cause),
          Log ERROR ''bitbake %s -c %s FAILED: %s'' [S recipe, S task, S cause],
          Clock (time_time E (Suc c)),
          Log INFO (''%s -c %s '' @ arrow @ '' %s (%d seconds)'')
            [S recipe, S task, S ''FAILED'', I (py_int (time_time E (Suc c) - time_time E c))]],
       clock_reads = Suc (Suc c), bitbake_calls = Suc b, run_calls = r, exit_stack = st\<rparr>)"
  by (simp add: run_native_check_task_def prog_defs Let_def)

text \<open>
  Claim C1. If the \<open>k\<close>-th of the four target builds fails (the earlier ones having
  passed), the workflow raises that step's assertion failure, and its only actions are
  the \<open>k + 1\<close> calls of the build tool made so far: no later build, no variable lookup,
  no resource acquisition and no remote command.
\<close>

theorem target_build_failure_aborts:
  assumes k: "k < 4"
    and before: "\<forall>j<k. bitbake E j (build_recipes ! j) = None"
    and fails: "bitbake E k (build_recipes ! k) = Some cause"
  shows "fst (test_target_llvm_clang_lld_builds E init_state) =
           Inl (AssertionError (build_recipes ! k @ '' build failed '' @ emdash @ '' see log above''))
       \<and> actions (trace (snd (test_target_llvm_clang_lld_builds E init_state))) =
           map (\<lambda>r. Bitbake r None) (take k build_recipes) @ [Bitbake (build_recipes ! k) (Some cause)]"
proof -
  from k consider "k = 0" | "k = 1" | "k = 2" | "k = 3" by linarith
  then show ?thesis
  proof cases
    case 1
    with fails have "bitbake E 0 ''llvm'' = Some cause" by (simp add: build_recipes_def)
    then show ?thesis using 1
      by (simp add: test_target_llvm_clang_lld_builds_def target_builds_def init_state_def
          run_target_build_fail prog_defs actions_def build_recipes_def)
  next
    case 2
    with fails before have "bitbake E 0 ''llvm'' = None" "bitbake E (Suc 0) ''clang'' = Some cause"
      by (simp_all add: build_recipes_def All_less_Suc)
    then show ?thesis using 2
      by (simp add: test_target_llvm_clang_lld_builds_def target_builds_def init_state_def
          run_target_build_fail run_target_build_pass prog_defs actions_def build_recipes_def)
  next
    case 3
    with fails before have "bitbake E 0 ''llvm'' = None" "bitbake E (Suc 0) ''clang'' = None"
      "bitbake E (Suc (Suc 0)) ''lld'' = Some cause"
      by (simp_all add: build_recipes_def eval_nat_numeral All_less_Suc)
    then show ?thesis using 3
      by (simp add: test_target_llvm_clang_lld_builds_def target_builds_def init_state_def
          run_target_build_fail run_target_build_pass prog_defs actions_def build_recipes_def
          eval_nat_numeral)
  next
    case 4
    with fails before have "bitbake E 0 ''llvm'' = None" "bitbake E (Suc 0) ''clang'' = None"
      "bitbake E (Suc (Suc 0)) ''lld'' = None"
      "bitbake E (Suc (Suc (Suc 0))) ''core-image-minimal'' = Some cause"
      by (simp_all add: build_recipes_def eval_nat_numeral All_less_Suc)
    then show ?thesis using 4
      by (simp add: test_target_llvm_clang_lld_builds_def target_builds_def init_state_def
          run_target_build_fail run_target_build_pass prog_defs actions_def build_recipes_def
          eval_nat_numeral)
  qed
qed

theorem target_build_failure_aborts_witness:
  "(2::nat) < 4
   \<and> bitbake lld_build_fails_env 0 ''llvm'' = None
   \<and> bitbake lld_build_fails_env 1 ''clang'' = None
   \<and> bitbake lld_build_fails_env 2 ''lld'' = Some ''do_compile failed''
   \<and> fst (test_target_llvm_clang_lld_builds lld_build_fails_env init_state) =
       Inl (AssertionError (''lld build failed '' @ emdash @ '' see log above''))
   \<and> actions (trace (snd (test_target_llvm_clang_lld_builds lld_build_fails_env init_state))) =
       [Bitbake ''llvm'' None, Bitbake ''clang'' None, Bitbake ''lld'' (Some ''do_compile failed'')]"
proof -
  have h1: "(2::nat) < 4" by simp
  have h2: "\<forall>j<2. bitbake lld_build_fails_env j (build_recipes ! j) = None"
    by (simp add: lld_build_fails_env_def ok_env_def build_recipes_def eval_nat_numeral All_less_Suc)
  have h3: "bitbake lld_build_fails_env 2 (build_recipes ! 2) = Some ''do_compile failed''"
    by (simp add: lld_build_fails_env_def ok_env_def build_recipes_def)
  show ?thesis
    using h1 h2 h3 target_build_failure_aborts [OF h1 h2 h3]
    by (simp add: build_recipes_def eval_nat_numeral All_less_Suc)
qed

text \<open>
  Claim C3. If the \<open>k\<close>-th of the three native checks fails (the earlier ones having
  passed), the native workflow raises an assertion failure whose message names the
  failing recipe and task, and its only actions are the \<open>k + 1\<close> calls of the build
  tool made so far: no later check is run.
\<close>

theorem native_check_failure_aborts:
  assumes k: "k < 3"
    and before: "\<forall>j<k. bitbake E j (check_cmd (native_checks ! j)) = None"
    and fails: "bitbake E k (check_cmd (native_checks ! k)) = Some cause"
  shows "fst (test_native_llvm_clang_lld_lit_suites E init_state) =
           Inl (AssertionError (fst (native_checks ! k) @ '' -c '' @ snd (native_checks ! k)
                  @ '' failed '' @ emdash @ '' see log above''))
       \<and> actions (trace (snd (test_native_llvm_clang_lld_lit_suites E init_state))) =
           map (\<lambda>rt. Bitbake (check_cmd rt) None) (take k native_checks)
           @ [Bitbake (check_cmd (native_checks ! k)) (Some cause)]"
proof -
  from k consider "k = 0" | "k = 1" | "k = 2" by linarith
  then show ?thesis
  proof cases
    case 1
    with fails have "bitbake E 0 (''llvm-native'' @ '' -c '' @ ''check_llvm'') = Some cause"
      by (simp add: native_checks_def check_cmd_def)
    then show ?thesis using 1
      by (simp add: test_native_llvm_clang_lld_lit_suites_def init_state_def
          run_native_check_task_fail prog_defs actions_def native_checks_def check_cmd_def)
  next
    case 2
    with fails before have "bitbake E 0 (''llvm-native'' @ '' -c '' @ ''check_llvm'') = None"
      "bitbake E (Suc 0) (''clang-native'' @ '' -c '' @ ''check_clang'') = Some cause"
      by (simp_all add: native_checks_def check_cmd_def All_less_Suc)
    then show ?thesis using 2
      by (simp add: test_native_llvm_clang_lld_lit_suites_def init_state_def
          run_native_check_task_fail run_native_check_task_pass prog_defs actions_def
          native_checks_def check_cmd_def)
  next
    case 3
    with fails before have "bitbake E 0 (''llvm-native'' @ '' -c '' @ ''check_llvm'') = None"
      "bitbake E (Suc 0) (''clang-native'' @ '' -c '' @ ''check_clang'') = None"
      "bitbake E (Suc (Suc 0)) (''lld-native'' @ '' -c '' @ ''check_lld'') = Some cause"
      by (simp_all add: native_checks_def check_cmd_def eval_nat_numeral All_less_Suc)
    then show ?thesis using 3
      by (simp add: test_native_llvm_clang_lld_lit_suites_def init_state_def
          run_native_check_task_fail run_native_check_task_pass prog_defs actions_def
          native_checks_def check_cmd_def eval_nat_numeral)
  qed
qed

theorem native_check_failure_aborts_witness:
  "(1::nat) < 3
   \<and> bitbake clang_check_fails_env 0 ''llvm-native -c check_llvm'' = None
   \<and> bitbake clang_check_fails_env 1 ''clang-native -c check_clang'' = Some ''3 tests failed''
   \<and> fst (test_native_llvm_clang_lld_lit_suites clang_check_fails_env init_state) =
       Inl (AssertionError (''clang-native -c check_clang failed '' @ emdash @ '' see log above''))
   \<and> actions (trace (snd (test_native_llvm_clang_lld_lit_suites clang_check_fails_env init_state))) =
       [Bitbake ''llvm-native -c check_llvm'' None,
        Bitbake ''clang-native -c check_clang'' (Some ''3 tests failed'')]"
proof -
  have h1: "(1::nat) < 3" by simp
  have h2: "\<forall>j<1. bitbake clang_check_fails_env j (check_cmd (native_checks ! j)) = None"
    by (simp add: clang_check_fails_env_def ok_env_def)
  have h3: "bitbake clang_check_fails_env 1 (check_cmd (native_checks ! 1)) = Some ''3 tests failed''"
    by (simp add: clang_check_fails_env_def ok_env_def)
  show ?thesis
    using h1 h2 h3 native_check_failure_aborts [OF h1 h2 h3]
    by (simp add: native_checks_def check_cmd_def clang_check_fails_env_def ok_env_def)
qed

text \<open>
  Claim C4. A timed step whose build fails still reads the clock a second time and logs
  the failure, then the status line with the elapsed seconds, before it raises an
  assertion failure that names the step; it returns no duration. A timed step whose
  build succeeds returns the elapsed seconds and raises nothing. This holds for
  \<open>run_native_check_task\<close> and for \<open>run_target_build\<close>, from every state.
\<close>

theorem timed_step_outcome:
  fixes E :: env and s :: state
  defines "t0 \<equiv> time_time E (clock_reads s)"
    and "t1 \<equiv> time_time E (Suc (clock_reads s))"
  shows "(bitbake E (bitbake_calls s) (recipe @ '' -c '' @ task) = Some cause \<longrightarrow>
            fst (run_native_check_task E recipe task s) =
              Inl (AssertionError (recipe @ '' -c '' @ task @ '' failed '' @ emdash @ '' see log above''))
          \<and> trace (snd (run_native_check_task E recipe task s)) = trace s @
              [Log INFO ''Running bitbake %s -c %s'' [S recipe, S task], Clock t0,
               Bitbake (recipe @ '' -c '' @ task) (Some cause),
               Log ERROR ''bitbake %s -c %s FAILED: %s'' [S recipe, S task, S cause],
               Clock t1,
               Log INFO (''%s -c %s '' @ arrow @ '' %s (%d seconds)'')
                 [S recipe, S task, S ''FAILED'', I (py_int (t1 - t0))]])
       \<and> (bitbake E (bitbake_calls s) (recipe @ '' -c '' @ task) = None \<longrightarrow>
            fst (run_native_check_task E recipe task s) = Inr (py_int (t1 - t0))
          \<and> trace (snd (run_native_check_task E recipe task s)) = trace s @
              [Log INFO ''Running bitbake %s -c %s'' [S recipe, S task], Clock t0,
               Bitbake (recipe @ '' -c '' @ task) None, Clock t1,
               Log INFO (''%s -c %s '' @ arrow @ '' %s (%d seconds)'')
                 [S recipe, S task, S ''PASSED'', I (py_int (t1 - t0))]])
       \<and> (bitbake E (bitbake_calls s) recipe = Some cause \<longrightarrow>
            fst (run_target_build E recipe s) =
              Inl (AssertionError (recipe @ '' build failed '' @ emdash @ '' see log above''))
          \<and> trace (snd (run_target_build E recipe s)) = trace s @
              [Log INFO ''Running bitbake %s'' [S recipe], Clock t0,
               Bitbake recipe (Some cause),
               Log ERROR ''bitbake %s FAILED: %s'' [S recipe, S cause],
               Clock t1,
               Log INFO (''%s '' @ arrow @ '' %s (%d seconds)'')
                 [S recipe, S ''FAILED'', I (py_int (t1 - t0))]])
       \<and> (bitbake E (bitbake_calls s) recipe = None \<longrightarrow>
            fst (run_target_build E recipe s) = Inr (py_int (t1 - t0))
          \<and> trace (snd (run_target_build E recipe s)) = trace s @
              [Log INFO ''Running bitbake %s'' [S recipe], Clock t0,
               Bitbake recipe None, Clock t1,
               Log INFO (''%s '' @ arrow @ '' %s (%d seconds)'')
                 [S recipe, S ''PASSED'', I (py_int (t1 - t0))]])"
  unfolding t0_def t1_def
  by (simp add: run_native_check_task_def run_target_build_def prog_defs)

theorem timed_step_outcome_witness:
  "bitbake clang_check_fails_env 1 ''clang-native -c check_clang'' = Some ''3 tests failed''
   \<and> fst (run_native_check_task clang_check_fails_env ''clang-native'' ''check_clang''
            (init_state\<lparr>bitbake_calls := 1\<rparr>)) =
       Inl (AssertionError (''clang-native -c check_clang failed '' @ emdash @ '' see log above''))
   \<and> trace (snd (run_native_check_task clang_check_fails_env ''clang-native'' ''check_clang''
            (init_state\<lparr>bitbake_calls := 1\<rparr>))) =
       [Log INFO ''Running bitbake %s -c %s'' [S ''clang-native'', S ''check_clang''], Clock 0,
        Bitbake ''clang-native -c check_clang'' (Some ''3 tests failed''),
        Log ERROR ''bitbake %s -c %s FAILED: %s''
          [S ''clang-native'', S ''check_clang'', S ''3 tests failed''],
        Clock (7 / 2),
        Log INFO (''%s -c %s '' @ arrow @ '' %s (%d seconds)'')
          [S ''clang-native'', S ''check_clang'', S ''FAILED'', I 3]]
   \<and> bitbake clang_check_fails_env 0 ''llvm-native -c check_llvm'' = None
   \<and> fst (run_native_check_task clang_check_fails_env ''llvm-native'' ''check_llvm'' init_state) = Inr 3
   \<and> bitbake lld_build_fails_env 0 ''lld'' = Some ''do_compile failed''
   \<and> fst (run_target_build lld_build_fails_env ''lld'' init_state) =
       Inl (AssertionError (''lld build failed '' @ emdash @ '' see log above''))
   \<and> bitbake lld_build_fails_env 0 ''llvm'' = None
   \<and> fst (run_target_build lld_build_fails_env ''llvm'' init_state) = Inr 3"
  using
    timed_step_outcome [where E = clang_check_fails_env and s = "init_state\<lparr>bitbake_calls := 1\<rparr>"
      and recipe = "''clang-native''" and task = "''check_clang''" and cause = "''3 tests failed''"]
    timed_step_outcome [where E = clang_check_fails_env and s = init_state
      and recipe = "''llvm-native''" and task = "''check_llvm''"]
    timed_step_outcome [where E = lld_build_fails_env and s = init_state
      and recipe = "''lld''" and cause = "''do_compile failed''"]
    timed_step_outcome [where E = lld_build_fails_env and s = init_state
      and recipe = "''llvm''"]
  by (simp add: clang_check_fails_env_def lld_build_fails_env_def ok_env_def init_state_def py_int_def)

lemma py_int_ge:
  assumes "py_int x = n" and "0 < n"
  shows "of_int n \<le> x"
proof -
  have "\<not> x < 0"
  proof
    assume "x < 0"
    then have "\<lceil>x\<rceil> \<le> 0" by (simp add: ceiling_le_zero)
    with assms \<open>x < 0\<close> show False by (simp add: py_int_def)
  qed
  with assms have "\<lfloor>x\<rfloor> = n" by (simp add: py_int_def)
  then show ?thesis using of_int_floor_le [of x] by simp
qed

lemma py_int_mono: "x \<le> y \<Longrightarrow> py_int x \<le> py_int y"
  unfolding py_int_def
  by (auto intro: floor_mono ceiling_mono simp: order_trans [OF ceiling_le_zero [THEN iffD2]]
      dest: order_trans)

lemma native_all_pass:
  assumes "bitbake E 0 ''llvm-native -c check_llvm'' = None"
    and "bitbake E (Suc 0) ''clang-native -c check_clang'' = None"
    and "bitbake E (Suc (Suc 0)) ''lld-native -c check_lld'' = None"
  shows "fst (test_native_llvm_clang_lld_lit_suites E init_state) = Inr ()"
    and "reported ''  llvm-native  -c check_llvm  : %d s''
           (trace (snd (test_native_llvm_clang_lld_lit_suites E init_state))) =
         [py_int (time_time E 2 - time_time E 1)]"
    and "reported ''  clang-native -c check_clang : %d s''
           (trace (snd (test_native_llvm_clang_lld_lit_suites E init_state))) =
         [py_int (time_time E 4 - time_time E 3)]"
    and "reported ''  lld-native   -c check_lld   : %d s''
           (trace (snd (test_native_llvm_clang_lld_lit_suites E init_state))) =
         [py_int (time_time E 6 - time_time E 5)]"
    and "reported ''  TOTAL EXECUTION TIME        : %d s''
           (trace (snd (test_native_llvm_clang_lld_lit_suites E init_state))) =
         [py_int (time_time E 7 - time_time E 0)]"
  using assms
  by (simp_all add: test_native_llvm_clang_lld_lit_suites_def init_state_def
      run_native_check_task_pass prog_defs eval_nat_numeral arrow_def banner_def)

text \<open>
  Claim C8, as stated, fails: in the run below the three native steps succeed and report
  10, 20 and 30 seconds, and the summary reports a total of 61 seconds, since the total
  is measured by the workflow's own two clock readings.
\<close>

theorem native_total_61_counterexample:
  "fst (test_native_llvm_clang_lld_lit_suites quarter_env init_state) = Inr ()
   \<and> reported ''  llvm-native  -c check_llvm  : %d s''
        (trace (snd (test_native_llvm_clang_lld_lit_suites quarter_env init_state))) = [10]
   \<and> reported ''  clang-native -c check_clang : %d s''
        (trace (snd (test_native_llvm_clang_lld_lit_suites quarter_env init_state))) = [20]
   \<and> reported ''  lld-native   -c check_lld   : %d s''
        (trace (snd (test_native_llvm_clang_lld_lit_suites quarter_env init_state))) = [30]
   \<and> reported ''  TOTAL EXECUTION TIME        : %d s''
        (trace (snd (test_native_llvm_clang_lld_lit_suites quarter_env init_state))) = [61]"
  using native_all_pass [of quarter_env]
  by (simp add: quarter_env_def ok_env_def py_int_def eval_nat_numeral)

text \<open>
  Claim C8, amended. In every run in which the three native steps succeed and report 10,
  20 and 30 seconds, the workflow succeeds and the summary reports those three numbers
  and, as the total, the truncated difference of the workflow's own last and first clock
  readings. That total is at least 60 seconds whenever the clock does not go back
  between a step's end and the next reading.
\<close>

theorem native_total_from_own_readings:
  assumes pass: "bitbake E 0 ''llvm-native -c check_llvm'' = None"
      "bitbake E 1 ''clang-native -c check_clang'' = None"
      "bitbake E 2 ''lld-native -c check_lld'' = None"
    and d1: "py_int (time_time E 2 - time_time E 1) = 10"
    and d2: "py_int (time_time E 4 - time_time E 3) = 20"
    and d3: "py_int (time_time E 6 - time_time E 5) = 30"
  shows "fst (test_native_llvm_clang_lld_lit_suites E init_state) = Inr ()
       \<and> reported ''  llvm-native  -c check_llvm  : %d s''
            (trace (snd (test_native_llvm_clang_lld_lit_suites E init_state))) = [10]
       \<and> reported ''  clang-native -c check_clang : %d s''
            (trace (snd (test_native_llvm_clang_lld_lit_suites E init_state))) = [20]
       \<and> reported ''  lld-native   -c check_lld   : %d s''
            (trace (snd (test_native_llvm_clang_lld_lit_suites E init_state))) = [30]
       \<and> reported ''  TOTAL EXECUTION TIME        : %d s''
            (trace (snd (test_native_llvm_clang_lld_lit_suites E init_state))) =
          [py_int (time_time E 7 - time_time E 0)]
       \<and> (time_time E 0 \<le> time_time E 1 \<and> time_time E 2 \<le> time_time E 3
            \<and> time_time E 4 \<le> time_time E 5 \<and> time_time E 6 \<le> time_time E 7
          \<longrightarrow> 60 \<le> py_int (time_time E 7 - time_time E 0))"
proof -
  from pass have p: "bitbake E 0 ''llvm-native -c check_llvm'' = None"
      "bitbake E (Suc 0) ''clang-native -c check_clang'' = None"
      "bitbake E (Suc (Suc 0)) ''lld-native -c check_lld'' = None"
    by (simp_all add: eval_nat_numeral)
  have bound: "60 \<le> py_int (time_time E 7 - time_time E 0)"
    if mono: "time_time E 0 \<le> time_time E 1" "time_time E 2 \<le> time_time E 3"
      "time_time E 4 \<le> time_time E 5" "time_time E 6 \<le> time_time E 7"
  proof -
    have "10 \<le> time_time E 2 - time_time E 1" using py_int_ge [OF d1] by simp
    moreover have "20 \<le> time_time E 4 - time_time E 3" using py_int_ge [OF d2] by simp
    moreover have "30 \<le> time_time E 6 - time_time E 5" using py_int_ge [OF d3] by simp
    ultimately have "60 \<le> time_time E 7 - time_time E 0" using mono by linarith
    then have "py_int 60 \<le> py_int (time_time E 7 - time_time E 0)" by (rule py_int_mono)
    then show ?thesis by (simp add: py_int_def)
  qed
  show ?thesis
    using native_all_pass [OF p] d1 d2 d3 bound by simp
qed

theorem native_total_from_own_readings_witness:
  "bitbake quarter_env 0 ''llvm-native -c check_llvm'' = None
   \<and> bitbake quarter_env 1 ''clang-native -c check_clang'' = None
   \<and> bitbake quarter_env 2 ''lld-native -c check_lld'' = None
   \<and> py_int (time_time quarter_env 2 - time_time quarter_env 1) = 10
   \<and> py_int (time_time quarter_env 4 - time_time quarter_env 3) = 20
   \<and> py_int (time_time quarter_env 6 - time_time quarter_env 5) = 30
   \<and> time_time quarter_env 0 \<le> time_time quarter_env 1
   \<and> time_time quarter_env 2 \<le> time_time quarter_env 3
   \<and> time_time quarter_env 4 \<le> time_time quarter_env 5
   \<and> time_time quarter_env 6 \<le> time_time quarter_env 7
   \<and> fst (test_native_llvm_clang_lld_lit_suites quarter_env init_state) = Inr ()
   \<and> reported ''  TOTAL EXECUTION TIME        : %d s''
        (trace (snd (test_native_llvm_clang_lld_lit_suites quarter_env init_state))) = [61]
   \<and> (60::int) \<le> 61"
proof -
  have p: "bitbake quarter_env 0 ''llvm-native -c check_llvm'' = None"
      "bitbake quarter_env 1 ''clang-native -c check_clang'' = None"
      "bitbake quarter_env 2 ''lld-native -c check_lld'' = None"
    by (simp_all add: quarter_env_def ok_env_def)
  have d: "py_int (time_time quarter_env 2 - time_time quarter_env 1) = 10"
      "py_int (time_time quarter_env 4 - time_time quarter_env 3) = 20"
      "py_int (time_time quarter_env 6 - time_time quarter_env 5) = 30"
    by (simp_all add: quarter_env_def ok_env_def py_int_def)
  have t: "py_int (time_time quarter_env 7 - time_time quarter_env 0) = 61"
    by (simp add: quarter_env_def ok_env_def py_int_def)
  have m: "time_time quarter_env 0 \<le> time_time quarter_env 1"
      "time_time quarter_env 2 \<le> time_time quarter_env 3"
      "time_time quarter_env 4 \<le> time_time quarter_env 5"
      "time_time quarter_env 6 \<le> time_time quarter_env 7"
    by (simp_all add: quarter_env_def ok_env_def)
  show ?thesis
    using native_total_from_own_readings [OF p d] p d m t by simp
qed

lemmas scope_defs = enter_runqemu_def enter_unfs_server_def with_ExitStack_def lookup_var_def
  run_def assertEqual_def

lemma str_int_0: "str_int 0 = ''0''"
  by (simp add: str_int_def str_nat.simps digit_char_def)

lemma scope_entered:
  assumes vm: "runqemu E ''core-image-minimal'' ''nographic'' ''-m 8192'' = Inr ip"
    and nfs: "unfs_server E (get_bb_var E ''TMPDIR'') = Inr (p1, p2)"
  shows "fst (with_ExitStack (target_scope_body E)
             \<lparr>trace = tr, clock_reads = c, bitbake_calls = b, run_calls = 0, exit_stack = []\<rparr>) =
           outcome (first_failure (remote_steps E (get_bb_var E ''TMPDIR'') ip p1 p2
             (remote_answers E (get_bb_var E ''TMPDIR'') ip p1 p2)))
       \<and> actions (trace (snd (with_ExitStack (target_scope_body E)
             \<lparr>trace = tr, clock_reads = c, bitbake_calls = b, run_calls = 0, exit_stack = []\<rparr>))) =
           actions tr @ [GetVar ''TMPDIR'' (get_bb_var E ''TMPDIR''), Acquire VM, Acquire Export]
           @ gated (remote_steps E (get_bb_var E ''TMPDIR'') ip p1 p2
               (remote_answers E (get_bb_var E ''TMPDIR'') ip p1 p2))
           @ [Release Export, Release VM]"
proof -
  obtain s0 o0 where a0: "qemu_run E 0 ''uname'' None = (s0, o0)" by fastforce
  obtain s1 o1 where a1: "qemu_run E (Suc 0) (mkdir_cmd (get_bb_var E ''TMPDIR'')) None = (s1, o1)" by fastforce
  obtain s2 o2 where a2: "qemu_run E (Suc (Suc 0)) (mount_cmd p1 p2 ip (get_bb_var E ''TMPDIR'')) None = (s2, o2)" by fastforce
  obtain s3 o3 where a3: "qemu_run E (Suc (Suc (Suc 0))) (lit_cmd_lld (get_bb_var E ''TMPDIR'')) None = (s3, o3)" by fastforce
  obtain s4 o4 where a4: "qemu_run E (Suc (Suc (Suc (Suc 0)))) (cp_cmd (get_bb_var E ''TMPDIR'') ''lld'') None = (s4, o4)" by fastforce
  obtain s5 o5 where a5: "qemu_run E (Suc (Suc (Suc (Suc (Suc 0))))) (lit_cmd_llvm (get_bb_var E ''TMPDIR'')) None = (s5, o5)" by fastforce
  obtain s6 o6 where a6: "qemu_run E (Suc (Suc (Suc (Suc (Suc (Suc 0)))))) (cp_cmd (get_bb_var E ''TMPDIR'') ''llvm'') None = (s6, o6)" by fastforce
  obtain s7 o7 where a7: "qemu_run E (Suc (Suc (Suc (Suc (Suc (Suc (Suc 0))))))) (lit_cmd_clang (get_bb_var E ''TMPDIR'')) (Some 1000) = (s7, o7)" by fastforce
  obtain s8 o8 where a8: "qemu_run E (Suc (Suc (Suc (Suc (Suc (Suc (Suc (Suc 0)))))))) (cp_cmd (get_bb_var E ''TMPDIR'') ''clang'') None = (s8, o8)" by fastforce
  note a = a0 a1 a2 a3 a4 a5 a6 a7 a8
  have ans: "remote_answers E (get_bb_var E ''TMPDIR'') ip p1 p2 =
      [(s0, o0), (s1, o1), (s2, o2), (s3, o3), (s4, o4), (s5, o5), (s6, o6), (s7, o7), (s8, o8)]"
    using a unfolding remote_answers_def
    by (simp add: numeral_2_eq_2 numeral_3_eq_3 eval_nat_numeral)
  have f0: ?thesis if "s0 \<noteq> 0"
    unfolding ans using vm nfs a that
    by (simp add: target_scope_body_def prog_defs scope_defs actions_def remote_steps_def
          remote_step_def outcome_def str_int_0)
  have f1: ?thesis if "s0 = 0" "s1 \<noteq> 0"
    unfolding ans using vm nfs a that
    by (simp add: target_scope_body_def prog_defs scope_defs actions_def remote_steps_def
          remote_step_def outcome_def str_int_0)
  have f2: ?thesis if "s0 = 0" "s1 = 0" "s2 \<noteq> 0"
    unfolding ans using vm nfs a that
    by (simp add: target_scope_body_def prog_defs scope_defs actions_def remote_steps_def
          remote_step_def outcome_def str_int_0)
  have f3: ?thesis if "s0 = 0" "s1 = 0" "s2 = 0" "s3 \<noteq> 0"
    unfolding ans using vm nfs a that
    by (simp add: target_scope_body_def prog_defs scope_defs actions_def remote_steps_def
          remote_step_def outcome_def str_int_0)
  have f4: ?thesis if "s0 = 0" "s1 = 0" "s2 = 0" "s3 = 0" "s4 \<noteq> 0"
    unfolding ans using vm nfs a that
    by (simp add: target_scope_body_def prog_defs scope_defs actions_def remote_steps_def
          remote_step_def outcome_def str_int_0)
  have f5: ?thesis if "s0 = 0" "s1 = 0" "s2 = 0" "s3 = 0" "s4 = 0" "s5 \<noteq> 0"
    unfolding ans using vm nfs a that
    by (simp add: target_scope_body_def prog_defs scope_defs actions_def remote_steps_def
          remote_step_def outcome_def str_int_0)
  have f6: ?thesis if "s0 = 0" "s1 = 0" "s2 = 0" "s3 = 0" "s4 = 0" "s5 = 0" "s6 \<noteq> 0"
    unfolding ans using vm nfs a that
    by (simp add: target_scope_body_def prog_defs scope_defs actions_def remote_steps_def
          remote_step_def outcome_def str_int_0)
  have f7: ?thesis if "s0 = 0" "s1 = 0" "s2 = 0" "s3 = 0" "s4 = 0" "s5 = 0" "s6 = 0" "s7 \<noteq> 0"
    unfolding ans using vm nfs a that
    by (simp add: target_scope_body_def prog_defs scope_defs actions_def remote_steps_def
          remote_step_def outcome_def str_int_0)
  have f8: ?thesis if "s0 = 0" "s1 = 0" "s2 = 0" "s3 = 0" "s4 = 0" "s5 = 0" "s6 = 0" "s7 = 0" "s8 \<noteq> 0"
    unfolding ans using vm nfs a that
    by (simp add: target_scope_body_def prog_defs scope_defs actions_def remote_steps_def
          remote_step_def outcome_def str_int_0)
  have ok: ?thesis if "s0 = 0" "s1 = 0" "s2 = 0" "s3 = 0" "s4 = 0" "s5 = 0" "s6 = 0" "s7 = 0" "s8 = 0"
    unfolding ans using vm nfs a that
    by (simp add: target_scope_body_def prog_defs scope_defs actions_def remote_steps_def
          remote_step_def outcome_def str_int_0)
  show ?thesis
    using f0 f1 f2 f3 f4 f5 f6 f7 f8 ok by blast
qed

lemma scope_vm_failed:
  assumes "runqemu E ''core-image-minimal'' ''nographic'' ''-m 8192'' = Inl e"
  shows "fst (with_ExitStack (target_scope_body E)
             \<lparr>trace = tr, clock_reads = c, bitbake_calls = b, run_calls = 0, exit_stack = []\<rparr>) = Inl e
       \<and> actions (trace (snd (with_ExitStack (target_scope_body E)
             \<lparr>trace = tr, clock_reads = c, bitbake_calls = b, run_calls = 0, exit_stack = []\<rparr>))) =
           actions tr @ [GetVar ''TMPDIR'' (get_bb_var E ''TMPDIR''), AcquireFailed VM]"
  using assms
  by (simp add: target_scope_body_def prog_defs scope_defs actions_def)

lemma scope_export_failed:
  assumes "runqemu E ''core-image-minimal'' ''nographic'' ''-m 8192'' = Inr ip"
    and "unfs_server E (get_bb_var E ''TMPDIR'') = Inl e"
  shows "fst (with_ExitStack (target_scope_body E)
             \<lparr>trace = tr, clock_reads = c, bitbake_calls = b, run_calls = 0, exit_stack = []\<rparr>) = Inl e
       \<and> actions (trace (snd (with_ExitStack (target_scope_body E)
             \<lparr>trace = tr, clock_reads = c, bitbake_calls = b, run_calls = 0, exit_stack = []\<rparr>))) =
           actions tr @ [GetVar ''TMPDIR'' (get_bb_var E ''TMPDIR''), Acquire VM, AcquireFailed Export,
             Release VM]"
  using assms
  by (simp add: target_scope_body_def prog_defs scope_defs actions_def)

lemma target_builds_pass:
  assumes "builds_pass E"
  shows "\<exists>tr c. target_builds E init_state =
           (Inr (), \<lparr>trace = tr, clock_reads = c, bitbake_calls = 4, run_calls = 0, exit_stack = []\<rparr>)
         \<and> actions tr = map (\<lambda>r. Bitbake r None) build_recipes"
  using assms
  by (simp add: builds_pass_def target_builds_def init_state_def run_target_build_pass prog_defs
      actions_def build_recipes_def eval_nat_numeral)

lemma builds_cases:
  obtains (pass) "builds_pass E"
  | (fail) k cause where "k < 4" "\<forall>j<k. bitbake E j (build_recipes ! j) = None"
      "bitbake E k (build_recipes ! k) = Some cause"
proof (cases "bitbake E 0 ''llvm''")
  case (Some c)
  then show thesis using fail [of 0 c] by (simp add: build_recipes_def)
next
  case n0: None
  show thesis
  proof (cases "bitbake E 1 ''clang''")
    case (Some c)
    then show thesis using fail [of 1 c] n0 by (simp add: build_recipes_def)
  next
    case n1: None
    show thesis
    proof (cases "bitbake E 2 ''lld''")
      case (Some c)
      then show thesis using fail [of 2 c] n0 n1
        by (simp add: build_recipes_def eval_nat_numeral All_less_Suc)
    next
      case n2: None
      show thesis
      proof (cases "bitbake E 3 ''core-image-minimal''")
        case (Some c)
        then show thesis using fail [of 3 c] n0 n1 n2
          by (simp add: build_recipes_def eval_nat_numeral All_less_Suc)
      next
        case None
        then show thesis using pass n0 n1 n2 by (simp add: builds_pass_def)
      qed
    qed
  qed
qed

lemma target_builds_fail:
  assumes k: "k < 4"
    and before: "\<forall>j<k. bitbake E j (build_recipes ! j) = None"
    and fails: "bitbake E k (build_recipes ! k) = Some cause"
  shows "\<exists>s. target_builds E init_state =
           (Inl (AssertionError (build_recipes ! k @ '' build failed '' @ emdash @ '' see log above'')), s)
         \<and> actions (trace s) =
           map (\<lambda>r. Bitbake r None) (take k build_recipes) @ [Bitbake (build_recipes ! k) (Some cause)]"
proof -
  from k consider "k = 0" | "k = 1" | "k = 2" | "k = 3" by linarith
  then show ?thesis
  proof cases
    case 1
    with fails have "bitbake E 0 ''llvm'' = Some cause" by (simp add: build_recipes_def)
    then show ?thesis using 1
      by (simp add: target_builds_def init_state_def
          run_target_build_fail prog_defs actions_def build_recipes_def)
  next
    case 2
    with fails before have "bitbake E 0 ''llvm'' = None" "bitbake E (Suc 0) ''clang'' = Some cause"
      by (simp_all add: build_recipes_def All_less_Suc)
    then show ?thesis using 2
      by (simp add: target_builds_def init_state_def
          run_target_build_fail run_target_build_pass prog_defs actions_def build_recipes_def)
  next
    case 3
    with fails before have "bitbake E 0 ''llvm'' = None" "bitbake E (Suc 0) ''clang'' = None"
      "bitbake E (Suc (Suc 0)) ''lld'' = Some cause"
      by (simp_all add: build_recipes_def eval_nat_numeral All_less_Suc)
    then show ?thesis using 3
      by (simp add: target_builds_def init_state_def
          run_target_build_fail run_target_build_pass prog_defs actions_def build_recipes_def
          eval_nat_numeral)
  next
    case 4
    with fails before have "bitbake E 0 ''llvm'' = None" "bitbake E (Suc 0) ''clang'' = None"
      "bitbake E (Suc (Suc 0)) ''lld'' = None"
      "bitbake E (Suc (Suc (Suc 0))) ''core-image-minimal'' = Some cause"
      by (simp_all add: build_recipes_def eval_nat_numeral All_less_Suc)
    then show ?thesis using 4
      by (simp add: target_builds_def init_state_def
          run_target_build_fail run_target_build_pass prog_defs actions_def build_recipes_def
          eval_nat_numeral)
  qed
qed

text \<open>
  Every run of the target workflow is of one of four kinds: a build fails; the virtual
  machine fails to start; the export fails to start; or the scope is entered and the
  remote commands run as a chain of gated steps.
\<close>

lemma target_run_cases:
  fixes E :: env
  defines "R \<equiv> test_target_llvm_clang_lld_builds E init_state"
    and "tmpdir \<equiv> get_bb_var E ''TMPDIR''"
    and "built \<equiv> map (\<lambda>r. Bitbake r None) build_recipes"
  obtains
    (build_failed) k cause where "k < 4"
      "\<forall>j<k. bitbake E j (build_recipes ! j) = None"
      "bitbake E k (build_recipes ! k) = Some cause"
      "fst R = Inl (AssertionError (build_recipes ! k @ '' build failed '' @ emdash @ '' see log above''))"
      "actions (trace (snd R)) =
         map (\<lambda>r. Bitbake r None) (take k build_recipes) @ [Bitbake (build_recipes ! k) (Some cause)]"
  | (vm_failed) e where "builds_pass E"
      "runqemu E ''core-image-minimal'' ''nographic'' ''-m 8192'' = Inl e"
      "fst R = Inl e"
      "actions (trace (snd R)) = built @ [GetVar ''TMPDIR'' tmpdir, AcquireFailed VM]"
  | (export_failed) ip e where "builds_pass E"
      "runqemu E ''core-image-minimal'' ''nographic'' ''-m 8192'' = Inr ip"
      "unfs_server E tmpdir = Inl e"
      "fst R = Inl e"
      "actions (trace (snd R)) =
         built @ [GetVar ''TMPDIR'' tmpdir, Acquire VM, AcquireFailed Export, Release VM]"
  | (entered) ip p1 p2 where "builds_pass E"
      "runqemu E ''core-image-minimal'' ''nographic'' ''-m 8192'' = Inr ip"
      "unfs_server E tmpdir = Inr (p1, p2)"
      "fst R = outcome (first_failure (remote_steps E tmpdir ip p1 p2 (remote_answers E tmpdir ip p1 p2)))"
      "actions (trace (snd R)) =
         built @ [GetVar ''TMPDIR'' tmpdir, Acquire VM, Acquire Export]
         @ gated (remote_steps E tmpdir ip p1 p2 (remote_answers E tmpdir ip p1 p2))
         @ [Release Export, Release VM]"
proof (cases E rule: builds_cases)
  case (fail k cause)
  from target_builds_fail [OF fail] obtain s where
    "target_builds E init_state =
       (Inl (AssertionError (build_recipes ! k @ '' build failed '' @ emdash @ '' see log above'')), s)"
    "actions (trace s) =
       map (\<lambda>r. Bitbake r None) (take k build_recipes) @ [Bitbake (build_recipes ! k) (Some cause)]"
    by blast
  then have "fst R = Inl (AssertionError (build_recipes ! k @ '' build failed '' @ emdash @ '' see log above''))"
    "actions (trace (snd R)) =
       map (\<lambda>r. Bitbake r None) (take k build_recipes) @ [Bitbake (build_recipes ! k) (Some cause)]"
    by (simp_all add: R_def test_target_llvm_clang_lld_builds_def bindp_def)
  with fail show thesis by (rule build_failed)
next
  case pass
  from target_builds_pass [OF pass] obtain tr c where
    b: "target_builds E init_state =
          (Inr (), \<lparr>trace = tr, clock_reads = c, bitbake_calls = 4, run_calls = 0, exit_stack = []\<rparr>)"
    and tr: "actions tr = built"
    by (auto simp: built_def)
  define Q where "Q = with_ExitStack (target_scope_body E)
      \<lparr>trace = tr, clock_reads = c, bitbake_calls = 4, run_calls = 0, exit_stack = []\<rparr>"
  have R: "fst R = fst Q" "trace (snd R) = trace (snd Q)"
    using b
    by (simp_all add: R_def Q_def test_target_llvm_clang_lld_builds_def bindp_def returnp_def
        split: prod.split sum.split)
  show thesis
  proof (cases "runqemu E ''core-image-minimal'' ''nographic'' ''-m 8192''")
    case (Inl e)
    from scope_vm_failed [OF Inl, of tr c 4] show thesis
      using vm_failed [of e] pass Inl R tr by (simp add: Q_def tmpdir_def)
  next
    case vm: (Inr ip)
    show thesis
    proof (cases "unfs_server E tmpdir")
      case (Inl e)
      then have "unfs_server E (get_bb_var E ''TMPDIR'') = Inl e" by (simp add: tmpdir_def)
      from scope_export_failed [OF vm this, of tr c 4] show thesis
        using export_failed [of ip e] pass vm Inl R tr by (simp add: Q_def tmpdir_def)
    next
      case (Inr ports)
      obtain p1 p2 where ports: "ports = (p1, p2)" by (cases ports)
      with Inr have nfs: "unfs_server E (get_bb_var E ''TMPDIR'') = Inr (p1, p2)"
        by (simp add: tmpdir_def)
      from scope_entered [OF vm nfs, of tr c 4] show thesis
        using entered [of ip p1 p2] pass vm nfs R tr by (simp add: Q_def tmpdir_def)
    qed
  qed
qed

lemma acquired_append: "acquired (xs @ ys) = acquired xs @ acquired ys"
  by (induction xs rule: acquired.induct) simp_all

lemma released_append: "released (xs @ ys) = released xs @ released ys"
  by (induction xs rule: released.induct) simp_all

lemma acquired_actions: "acquired (actions tr) = acquired tr"
  unfolding actions_def by (induction tr rule: acquired.induct) simp_all

lemma released_actions: "released (actions tr) = released tr"
  unfolding actions_def by (induction tr rule: released.induct) simp_all

lemma no_resource_events:
  "\<forall>e\<in>set tr. \<not> is_resource_event e \<Longrightarrow> acquired tr = [] \<and> released tr = []"
  by (induction tr rule: acquired.induct) simp_all

lemma gated_subset: "set (gated xs) \<subseteq> fst ` set xs"
  by (induction xs rule: gated.induct) (auto split: option.splits)

lemma remote_steps_are_runs:
  "\<forall>x\<in>set (remote_steps E tmpdir ip p1 p2 a). is_run (fst x)"
  by (simp add: remote_steps_def remote_step_def)

lemma gated_remote_no_resources:
  "acquired (gated (remote_steps E tmpdir ip p1 p2 a)) = []
   \<and> released (gated (remote_steps E tmpdir ip p1 p2 a)) = []"
proof (rule no_resource_events, rule ballI)
  fix e assume "e \<in> set (gated (remote_steps E tmpdir ip p1 p2 a))"
  then have "e \<in> fst ` set (remote_steps E tmpdir ip p1 p2 a)" using gated_subset by blast
  then have "is_run e" using remote_steps_are_runs by fastforce
  then show "\<not> is_resource_event e" by (cases e) simp_all
qed

lemma builds_no_resources:
  "acquired (map (\<lambda>r. Bitbake r c) rs) = [] \<and> released (map (\<lambda>r. Bitbake r c) rs) = []"
  by (induction rs) simp_all

text \<open>
  Claim C2. On every run of the target workflow, whatever its outcome, the actions end
  with the release of exactly the resources acquired before, each once and in reverse
  order of acquisition, and nothing is released earlier; the releases are in the trace
  when the workflow returns its result. In particular, when the export fails to start
  after the virtual machine was acquired, that failure is the result and the virtual
  machine has been released once; and once both are acquired, the export and then the
  virtual machine are released, however the mounting and the tests end.
\<close>

theorem resources_released_in_reverse:
  fixes E :: env
  defines "R \<equiv> test_target_llvm_clang_lld_builds E init_state"
  shows "(\<exists>pre. actions (trace (snd R)) = pre @ map Release (rev (acquired pre))
            \<and> released pre = [] \<and> distinct (acquired pre))
       \<and> released (trace (snd R)) = rev (acquired (trace (snd R)))
       \<and> distinct (acquired (trace (snd R)))
       \<and> (builds_pass E
            \<and> runqemu E ''core-image-minimal'' ''nographic'' ''-m 8192'' = Inr ip
            \<and> unfs_server E (get_bb_var E ''TMPDIR'') = Inl e
          \<longrightarrow> fst R = Inl e \<and> acquired (trace (snd R)) = [VM] \<and> released (trace (snd R)) = [VM])
       \<and> (builds_pass E
            \<and> runqemu E ''core-image-minimal'' ''nographic'' ''-m 8192'' = Inr ip
            \<and> unfs_server E (get_bb_var E ''TMPDIR'') = Inr ports
          \<longrightarrow> acquired (trace (snd R)) = [VM, Export] \<and> released (trace (snd R)) = [Export, VM])"
proof -
  have key: "\<exists>pre. actions (trace (snd R)) = pre @ map Release (rev (acquired pre))
      \<and> released pre = [] \<and> distinct (acquired pre)
      \<and> (builds_pass E
            \<and> runqemu E ''core-image-minimal'' ''nographic'' ''-m 8192'' = Inr ip
            \<and> unfs_server E (get_bb_var E ''TMPDIR'') = Inl e
          \<longrightarrow> fst R = Inl e \<and> acquired pre = [VM])
      \<and> (builds_pass E
            \<and> runqemu E ''core-image-minimal'' ''nographic'' ''-m 8192'' = Inr ip
            \<and> unfs_server E (get_bb_var E ''TMPDIR'') = Inr ports
          \<longrightarrow> acquired pre = [VM, Export])"
  proof (cases E rule: target_run_cases)
    case (build_failed k cause)
    then have "\<not> builds_pass E"
      by (auto simp: builds_pass_def build_recipes_def less_Suc_eq eval_nat_numeral)
    then show ?thesis
      using build_failed(5) builds_no_resources [of None "take k build_recipes"]
      by (intro exI [of _ "actions (trace (snd R))"])
        (simp add: R_def acquired_append released_append)
  next
    case (vm_failed e')
    then show ?thesis
      using builds_no_resources [of None build_recipes]
      by (intro exI [of _ "actions (trace (snd R))"])
        (simp add: R_def acquired_append released_append)
  next
    case (export_failed ip' e')
    then show ?thesis
      using builds_no_resources [of None build_recipes]
      by (intro exI [of _ "map (\<lambda>r. Bitbake r None) build_recipes
            @ [GetVar ''TMPDIR'' (get_bb_var E ''TMPDIR''), Acquire VM, AcquireFailed Export]"])
        (simp add: R_def acquired_append released_append)
  next
    case (entered ip' p1 p2)
    then show ?thesis
      using builds_no_resources [of None build_recipes]
        gated_remote_no_resources [of E "get_bb_var E ''TMPDIR''" ip' p1 p2
          "remote_answers E (get_bb_var E ''TMPDIR'') ip' p1 p2"]
      by (intro exI [of _ "map (\<lambda>r. Bitbake r None) build_recipes
            @ [GetVar ''TMPDIR'' (get_bb_var E ''TMPDIR''), Acquire VM, Acquire Export]
            @ gated (remote_steps E (get_bb_var E ''TMPDIR'') ip' p1 p2
                (remote_answers E (get_bb_var E ''TMPDIR'') ip' p1 p2))"])
        (simp add: R_def acquired_append released_append gated_remote_no_resources)
  qed
  then obtain pre where pre: "actions (trace (snd R)) = pre @ map Release (rev (acquired pre))"
      "released pre = []" "distinct (acquired pre)"
    and exp: "builds_pass E
            \<and> runqemu E ''core-image-minimal'' ''nographic'' ''-m 8192'' = Inr ip
            \<and> unfs_server E (get_bb_var E ''TMPDIR'') = Inl e
          \<longrightarrow> fst R = Inl e \<and> acquired pre = [VM]"
    and ent: "builds_pass E
            \<and> runqemu E ''core-image-minimal'' ''nographic'' ''-m 8192'' = Inr ip
            \<and> unfs_server E (get_bb_var E ''TMPDIR'') = Inr ports
          \<longrightarrow> acquired pre = [VM, Export]"
    by blast
  have rel: "acquired (map Release rs) = [] \<and> released (map Release rs) = rs" for rs
    by (induction rs) simp_all
  have a: "acquired (trace (snd R)) = acquired pre"
    using pre(1) rel [of "rev (acquired pre)"]
    by (metis acquired_actions acquired_append append_Nil2)
  have r: "released (trace (snd R)) = rev (acquired pre)"
    using pre(1,2) rel [of "rev (acquired pre)"]
    by (metis released_actions released_append append_Nil)
  show ?thesis
    using pre exp ent a r by auto
qed

theorem resources_released_in_reverse_witness:
  "builds_pass export_fails_env
   \<and> runqemu export_fails_env ''core-image-minimal'' ''nographic'' ''-m 8192'' = Inr ''192.168.7.1''
   \<and> unfs_server export_fails_env (get_bb_var export_fails_env ''TMPDIR'') =
       Inl (Exception ''unfsd did not start'')
   \<and> fst (test_target_llvm_clang_lld_builds export_fails_env init_state) =
       Inl (Exception ''unfsd did not start'')
   \<and> acquired (trace (snd (test_target_llvm_clang_lld_builds export_fails_env init_state))) = [VM]
   \<and> released (trace (snd (test_target_llvm_clang_lld_builds export_fails_env init_state))) = [VM]
   \<and> builds_pass llvm_lit_fails_env
   \<and> runqemu llvm_lit_fails_env ''core-image-minimal'' ''nographic'' ''-m 8192'' = Inr ''192.168.7.1''
   \<and> unfs_server llvm_lit_fails_env (get_bb_var llvm_lit_fails_env ''TMPDIR'') = Inr (2049, 3049)
   \<and> acquired (trace (snd (test_target_llvm_clang_lld_builds llvm_lit_fails_env init_state))) =
       [VM, Export]
   \<and> released (trace (snd (test_target_llvm_clang_lld_builds llvm_lit_fails_env init_state))) =
       [Export, VM]"
  using
    resources_released_in_reverse [where E = export_fails_env and ip = "''192.168.7.1''"
      and e = "Exception ''unfsd did not start''",
      THEN conjunct2, THEN conjunct2, THEN conjunct2, THEN conjunct1]
    resources_released_in_reverse [where E = llvm_lit_fails_env and ip = "''192.168.7.1''"
      and ports = "(2049, 3049)",
      THEN conjunct2, THEN conjunct2, THEN conjunct2, THEN conjunct2]
  by (simp add: export_fails_env_def llvm_lit_fails_env_def ok_env_def builds_pass_def)

text \<open>
  The ten ways in which the chain of remote commands can end: the first command with a
  non-zero status is the last one issued, or all nine are issued.
\<close>

lemma remote_chain_cases:
  obtains
    (failed0) "fst (a ! 0) \<noteq> 0"
      "gated (remote_steps E t ip p1 p2 a) =
          [Run ''uname'' None (fst (a ! 0)) (snd (a ! 0))]"
      "first_failure (remote_steps E t ip p1 p2 a) =
          Some (AssertionError (str_int (fst (a ! 0)) @ '' != 0 : QEMU SSH check failed''))"
  | (failed1) "fst (a ! 0) = 0" "fst (a ! 1) \<noteq> 0"
      "gated (remote_steps E t ip p1 p2 a) =
          [Run ''uname'' None 0 (snd (a ! 0)),
           Run (mkdir_cmd t) None (fst (a ! 1)) (snd (a ! 1))]"
      "first_failure (remote_steps E t ip p1 p2 a) =
          Some (Exception ''Failed to setup NFS mount directory on target'')"
  | (failed2) "fst (a ! 0) = 0" "fst (a ! 1) = 0" "fst (a ! 2) \<noteq> 0"
      "gated (remote_steps E t ip p1 p2 a) =
          [Run ''uname'' None 0 (snd (a ! 0)),
           Run (mkdir_cmd t) None 0 (snd (a ! 1)),
           Run (mount_cmd p1 p2 ip t) None (fst (a ! 2)) (snd (a ! 2))]"
      "first_failure (remote_steps E t ip p1 p2 a) =
          Some (Exception (''Failed to setup NFS mount on target ('' @ py_repr E (snd (a ! 2)) @ '')''))"
  | (failed3) "fst (a ! 0) = 0" "fst (a ! 1) = 0" "fst (a ! 2) = 0" "fst (a ! 3) \<noteq> 0"
      "gated (remote_steps E t ip p1 p2 a) =
          [Run ''uname'' None 0 (snd (a ! 0)),
           Run (mkdir_cmd t) None 0 (snd (a ! 1)),
           Run (mount_cmd p1 p2 ip t) None 0 (snd (a ! 2)),
           Run (lit_cmd_lld t) None (fst (a ! 3)) (snd (a ! 3))]"
      "first_failure (remote_steps E t ip p1 p2 a) =
          Some (AssertionError (''llvm-lit failed on target for lld '' @ emdash @ '' see log above''))"
  | (failed4) "fst (a ! 0) = 0" "fst (a ! 1) = 0" "fst (a ! 2) = 0" "fst (a ! 3) = 0" "fst (a ! 4) \<noteq> 0"
      "gated (remote_steps E t ip p1 p2 a) =
          [Run ''uname'' None 0 (snd (a ! 0)),
           Run (mkdir_cmd t) None 0 (snd (a ! 1)),
           Run (mount_cmd p1 p2 ip t) None 0 (snd (a ! 2)),
           Run (lit_cmd_lld t) None 0 (snd (a ! 3)),
           Run (cp_cmd t ''lld'') None (fst (a ! 4)) (snd (a ! 4))]"
      "first_failure (remote_steps E t ip p1 p2 a) =
          Some (AssertionError ''Failed to copy LLD lit results back to host'')"
  | (failed5) "fst (a ! 0) = 0" "fst (a ! 1) = 0" "fst (a ! 2) = 0" "fst (a ! 3) = 0" "fst (a ! 4) = 0" "fst (a ! 5) \<noteq> 0"
      "gated (remote_steps E t ip p1 p2 a) =
          [Run ''uname'' None 0 (snd (a ! 0)),
           Run (mkdir_cmd t) None 0 (snd (a ! 1)),
           Run (mount_cmd p1 p2 ip t) None 0 (snd (a ! 2)),
           Run (lit_cmd_lld t) None 0 (snd (a ! 3)),
           Run (cp_cmd t ''lld'') None 0 (snd (a ! 4)),
           Run (lit_cmd_llvm t) None (fst (a ! 5)) (snd (a ! 5))]"
      "first_failure (remote_steps E t ip p1 p2 a) =
          Some (AssertionError (''llvm-lit failed on target for llvm '' @ emdash @ '' see log above''))"
  | (failed6) "fst (a ! 0) = 0" "fst (a ! 1) = 0" "fst (a ! 2) = 0" "fst (a ! 3) = 0" "fst (a ! 4) = 0" "fst (a ! 5) = 0" "fst (a ! 6) \<noteq> 0"
      "gated (remote_steps E t ip p1 p2 a) =
          [Run ''uname'' None 0 (snd (a ! 0)),
           Run (mkdir_cmd t) None 0 (snd (a ! 1)),
           Run (mount_cmd p1 p2 ip t) None 0 (snd (a ! 2)),
           Run (lit_cmd_lld t) None 0 (snd (a ! 3)),
           Run (cp_cmd t ''lld'') None 0 (snd (a ! 4)),
           Run (lit_cmd_llvm t) None 0 (snd (a ! 5)),
           Run (cp_cmd t ''llvm'') None (fst (a ! 6)) (snd (a ! 6))]"
      "first_failure (remote_steps E t ip p1 p2 a) =
          Some (AssertionError ''Failed to copy llvm lit results back to host'')"
  | (failed7) "fst (a ! 0) = 0" "fst (a ! 1) = 0" "fst (a ! 2) = 0" "fst (a ! 3) = 0" "fst (a ! 4) = 0" "fst (a ! 5) = 0" "fst (a ! 6) = 0" "fst (a ! 7) \<noteq> 0"
      "gated (remote_steps E t ip p1 p2 a) =
          [Run ''uname'' None 0 (snd (a ! 0)),
           Run (mkdir_cmd t) None 0 (snd (a ! 1)),
           Run (mount_cmd p1 p2 ip t) None 0 (snd (a ! 2)),
           Run (lit_cmd_lld t) None 0 (snd (a ! 3)),
           Run (cp_cmd t ''lld'') None 0 (snd (a ! 4)),
           Run (lit_cmd_llvm t) None 0 (snd (a ! 5)),
           Run (cp_cmd t ''llvm'') None 0 (snd (a ! 6)),
           Run (lit_cmd_clang t) (Some 1000) (fst (a ! 7)) (snd (a ! 7))]"
      "first_failure (remote_steps E t ip p1 p2 a) =
          Some (AssertionError (''llvm-lit failed on target for clang '' @ emdash @ '' see log above''))"
  | (failed8) "fst (a ! 0) = 0" "fst (a ! 1) = 0" "fst (a ! 2) = 0" "fst (a ! 3) = 0" "fst (a ! 4) = 0" "fst (a ! 5) = 0" "fst (a ! 6) = 0" "fst (a ! 7) = 0" "fst (a ! 8) \<noteq> 0"
      "gated (remote_steps E t ip p1 p2 a) =
          [Run ''uname'' None 0 (snd (a ! 0)),
           Run (mkdir_cmd t) None 0 (snd (a ! 1)),
           Run (mount_cmd p1 p2 ip t) None 0 (snd (a ! 2)),
           Run (lit_cmd_lld t) None 0 (snd (a ! 3)),
           Run (cp_cmd t ''lld'') None 0 (snd (a ! 4)),
           Run (lit_cmd_llvm t) None 0 (snd (a ! 5)),
           Run (cp_cmd t ''llvm'') None 0 (snd (a ! 6)),
           Run (lit_cmd_clang t) (Some 1000) 0 (snd (a ! 7)),
           Run (cp_cmd t ''clang'') None (fst (a ! 8)) (snd (a ! 8))]"
      "first_failure (remote_steps E t ip p1 p2 a) =
          Some (AssertionError ''Failed to copy LLVM lit results back to host'')"
  | (passed) "fst (a ! 0) = 0" "fst (a ! 1) = 0" "fst (a ! 2) = 0" "fst (a ! 3) = 0" "fst (a ! 4) = 0" "fst (a ! 5) = 0" "fst (a ! 6) = 0" "fst (a ! 7) = 0" "fst (a ! 8) = 0"
      "gated (remote_steps E t ip p1 p2 a) =
          [Run ''uname'' None 0 (snd (a ! 0)),
           Run (mkdir_cmd t) None 0 (snd (a ! 1)),
           Run (mount_cmd p1 p2 ip t) None 0 (snd (a ! 2)),
           Run (lit_cmd_lld t) None 0 (snd (a ! 3)),
           Run (cp_cmd t ''lld'') None 0 (snd (a ! 4)),
           Run (lit_cmd_llvm t) None 0 (snd (a ! 5)),
           Run (cp_cmd t ''llvm'') None 0 (snd (a ! 6)),
           Run (lit_cmd_clang t) (Some 1000) 0 (snd (a ! 7)),
           Run (cp_cmd t ''clang'') None 0 (snd (a ! 8))]"
      "first_failure (remote_steps E t ip p1 p2 a) = None"
proof -
  have f0: thesis if "fst (a ! 0) \<noteq> 0"
    using that by (intro failed0) (simp_all add: remote_steps_def remote_step_def)
  have f1: thesis if "fst (a ! 0) = 0" "fst (a ! 1) \<noteq> 0"
    using that by (intro failed1) (simp_all add: remote_steps_def remote_step_def)
  have f2: thesis if "fst (a ! 0) = 0" "fst (a ! 1) = 0" "fst (a ! 2) \<noteq> 0"
    using that by (intro failed2) (simp_all add: remote_steps_def remote_step_def)
  have f3: thesis if "fst (a ! 0) = 0" "fst (a ! 1) = 0" "fst (a ! 2) = 0" "fst (a ! 3) \<noteq> 0"
    using that by (intro failed3) (simp_all add: remote_steps_def remote_step_def)
  have f4: thesis if "fst (a ! 0) = 0" "fst (a ! 1) = 0" "fst (a ! 2) = 0" "fst (a ! 3) = 0" "fst (a ! 4) \<noteq> 0"
    using that by (intro failed4) (simp_all add: remote_steps_def remote_step_def)
  have f5: thesis if "fst (a ! 0) = 0" "fst (a ! 1) = 0" "fst (a ! 2) = 0" "fst (a ! 3) = 0" "fst (a ! 4) = 0" "fst (a ! 5) \<noteq> 0"
    using that by (intro failed5) (simp_all add: remote_steps_def remote_step_def)
  have f6: thesis if "fst (a ! 0) = 0" "fst (a ! 1) = 0" "fst (a ! 2) = 0" "fst (a ! 3) = 0" "fst (a ! 4) = 0" "fst (a ! 5) = 0" "fst (a ! 6) \<noteq> 0"
    using that by (intro failed6) (simp_all add: remote_steps_def remote_step_def)
  have f7: thesis if "fst (a ! 0) = 0" "fst (a ! 1) = 0" "fst (a ! 2) = 0" "fst (a ! 3) = 0" "fst (a ! 4) = 0" "fst (a ! 5) = 0" "fst (a ! 6) = 0" "fst (a ! 7) \<noteq> 0"
    using that by (intro failed7) (simp_all add: remote_steps_def remote_step_def)
  have f8: thesis if "fst (a ! 0) = 0" "fst (a ! 1) = 0" "fst (a ! 2) = 0" "fst (a ! 3) = 0" "fst (a ! 4) = 0" "fst (a ! 5) = 0" "fst (a ! 6) = 0" "fst (a ! 7) = 0" "fst (a ! 8) \<noteq> 0"
    using that by (intro failed8) (simp_all add: remote_steps_def remote_step_def)
  have ok: thesis if "fst (a ! 0) = 0" "fst (a ! 1) = 0" "fst (a ! 2) = 0" "fst (a ! 3) = 0" "fst (a ! 4) = 0" "fst (a ! 5) = 0" "fst (a ! 6) = 0" "fst (a ! 7) = 0" "fst (a ! 8) = 0"
    using that by (intro passed) (simp_all add: remote_steps_def remote_step_def)
  show thesis using f0 f1 f2 f3 f4 f5 f6 f7 f8 ok by blast
qed

lemmas cmd_defs = build_dir_def mkdir_cmd_def mount_cmd_def lit_cmd_lld_def lit_cmd_llvm_def
  lit_cmd_clang_def cp_cmd_def dquote_def squote_def

lemma runs_actions: "runs (actions tr) = runs tr"
  unfolding runs_def actions_def by (induction tr rule: acquired.induct) simp_all

lemma runs_append: "runs (xs @ ys) = runs xs @ runs ys"
  by (simp add: runs_def)

lemma runs_Cons: "runs (e # tr) = (if is_run e then e # runs tr else runs tr)"
  by (simp add: runs_def)

lemma runs_Nil: "runs [] = []"
  by (simp add: runs_def)

lemma runs_builds: "runs (map (\<lambda>r. Bitbake r c) rs) = []"
  by (induction rs) (simp_all add: runs_def)

lemma runs_gated_remote:
  "runs (gated (remote_steps E t ip p1 p2 a)) = gated (remote_steps E t ip p1 p2 a)"
proof -
  have "\<forall>e\<in>set (gated (remote_steps E t ip p1 p2 a)). is_run e"
    using gated_subset [of "remote_steps E t ip p1 p2 a"] remote_steps_are_runs [of E t ip p1 p2 a]
    by fastforce
  then show ?thesis by (simp add: runs_def)
qed

text \<open>The remote commands of a run: none unless the scope is entered, and then a gated chain.\<close>

lemma target_runs_cases:
  fixes E :: env
  defines "R \<equiv> test_target_llvm_clang_lld_builds E init_state"
    and "tmpdir \<equiv> get_bb_var E ''TMPDIR''"
  obtains
    (no_runs) e where "fst R = Inl e" "runs (trace (snd R)) = []"
  | (entered) ip p1 p2 where
      "fst R = outcome (first_failure (remote_steps E tmpdir ip p1 p2 (remote_answers E tmpdir ip p1 p2)))"
      "runs (trace (snd R)) = gated (remote_steps E tmpdir ip p1 p2 (remote_answers E tmpdir ip p1 p2))"
proof (cases E rule: target_run_cases)
  case (build_failed k cause)
  have "runs (trace (snd R)) = runs (actions (trace (snd R)))" by (simp add: runs_actions)
  also have "\<dots> = []"
    using build_failed(5) by (simp add: R_def runs_append runs_builds runs_Cons runs_Nil)
  finally show thesis using no_runs build_failed(4) by (simp add: R_def)
next
  case (vm_failed e)
  have "runs (trace (snd R)) = runs (actions (trace (snd R)))" by (simp add: runs_actions)
  also have "\<dots> = []"
    using vm_failed(4) by (simp add: R_def runs_append runs_builds runs_Cons runs_Nil)
  finally show thesis using no_runs vm_failed(3) by (simp add: R_def)
next
  case (export_failed ip e)
  have "runs (trace (snd R)) = runs (actions (trace (snd R)))" by (simp add: runs_actions)
  also have "\<dots> = []"
    using export_failed(5) by (simp add: R_def runs_append runs_builds runs_Cons runs_Nil)
  finally show thesis using no_runs export_failed(4) by (simp add: R_def)
next
  case (entered ip p1 p2)
  have "runs (trace (snd R)) = runs (actions (trace (snd R)))" by (simp add: runs_actions)
  also have "\<dots> = gated (remote_steps E tmpdir ip p1 p2 (remote_answers E tmpdir ip p1 p2))"
    using entered(5)
    by (simp add: R_def tmpdir_def runs_append runs_builds runs_gated_remote runs_Cons runs_Nil)
  finally show thesis using entered(4) by (intro that(2) [of ip p1 p2]) (simp_all add: R_def tmpdir_def)
qed

text \<open>
  Claim C5. In every run in which the reachability check \<^verbatim>\<open>uname\<close> is issued and returns
  a non-zero status, the workflow fails with the assertion failure of the check, and
  that check is the only remote command of the run: neither the creation of the mount
  point nor the mount is ever issued.
\<close>

theorem reachability_check_gates_mount:
  fixes E :: env
  defines "R \<equiv> test_target_llvm_clang_lld_builds E init_state"
  assumes issued: "Run ''uname'' None st out \<in> set (runs (trace (snd R)))"
    and nonzero: "st \<noteq> 0"
  shows "fst R = Inl (AssertionError (str_int st @ '' != 0 : QEMU SSH check failed''))
       \<and> runs (trace (snd R)) = [Run ''uname'' None st out]"
proof (cases E rule: target_runs_cases)
  case (no_runs e)
  with issued show ?thesis by (simp add: R_def)
next
  case (entered ip p1 p2)
  define a where "a = remote_answers E (get_bb_var E ''TMPDIR'') ip p1 p2"
  show ?thesis
    by (rule remote_chain_cases [where a = a and E = E and t = "get_bb_var E ''TMPDIR''"
          and ip = ip and ?p1.0 = p1 and ?p2.0 = p2])
      (use issued nonzero entered in \<open>simp_all add: R_def a_def outcome_def cmd_defs\<close>)
qed

lemmas workflow_defs = test_target_llvm_clang_lld_builds_def target_builds_def run_target_build_def
  target_scope_body_def init_state_def runs_def

lemma uname_fails_run:
  "runs (trace (snd (test_target_llvm_clang_lld_builds uname_fails_env init_state))) =
     [Run ''uname'' None 1 ''connection refused'']"
  by (simp add: workflow_defs prog_defs scope_defs uname_fails_env_def ok_env_def)

theorem reachability_check_gates_mount_witness:
  "Run ''uname'' None 1 ''connection refused''
     \<in> set (runs (trace (snd (test_target_llvm_clang_lld_builds uname_fails_env init_state))))
   \<and> (1::int) \<noteq> 0
   \<and> fst (test_target_llvm_clang_lld_builds uname_fails_env init_state) =
       Inl (AssertionError ''1 != 0 : QEMU SSH check failed'')
   \<and> runs (trace (snd (test_target_llvm_clang_lld_builds uname_fails_env init_state))) =
       [Run ''uname'' None 1 ''connection refused'']"
proof -
  have h: "Run ''uname'' None 1 ''connection refused''
     \<in> set (runs (trace (snd (test_target_llvm_clang_lld_builds uname_fails_env init_state))))"
    by (simp add: uname_fails_run)
  have n: "(1::int) \<noteq> 0" by simp
  have s: "str_int 1 = ''1''" by (simp add: str_int_def str_nat.simps digit_char_def)
  show ?thesis
    using reachability_check_gates_mount [OF h n] h s by simp
qed

text \<open>
  Claim C7. In every run in which the copy of the first component's results (\<^verbatim>\<open>lld\<close>) is
  issued and returns a non-zero status, the workflow fails with the copy's own assertion
  failure, which differs from the failure of that component's test run; the mount and
  the test run have returned zero, and the copy is the last remote command: the test
  runs and copies of the second and third components are never attempted.
\<close>

theorem lld_copy_failure_stops_workflow:
  fixes E :: env
  defines "R \<equiv> test_target_llvm_clang_lld_builds E init_state"
    and "tmpdir \<equiv> get_bb_var E ''TMPDIR''"
  assumes issued: "Run (cp_cmd tmpdir ''lld'') None st out \<in> set (runs (trace (snd R)))"
    and nonzero: "st \<noteq> 0"
  shows "fst R = Inl (AssertionError ''Failed to copy LLD lit results back to host'')
       \<and> AssertionError ''Failed to copy LLD lit results back to host'' \<noteq>
           AssertionError (''llvm-lit failed on target for lld '' @ emdash @ '' see log above'')
       \<and> (\<exists>ip p1 p2 o0 o1 o2 o3. runs (trace (snd R)) =
            [Run ''uname'' None 0 o0,
             Run (mkdir_cmd tmpdir) None 0 o1,
             Run (mount_cmd p1 p2 ip tmpdir) None 0 o2,
             Run (lit_cmd_lld tmpdir) None 0 o3,
             Run (cp_cmd tmpdir ''lld'') None st out])"
proof (cases E rule: target_runs_cases)
  case (no_runs e)
  with issued show ?thesis by (simp add: R_def)
next
  case (entered ip p1 p2)
  define a where "a = remote_answers E tmpdir ip p1 p2"
  have key: "fst R = Inl (AssertionError ''Failed to copy LLD lit results back to host'')
      \<and> runs (trace (snd R)) =
            [Run ''uname'' None 0 (snd (a ! 0)),
             Run (mkdir_cmd tmpdir) None 0 (snd (a ! 1)),
             Run (mount_cmd p1 p2 ip tmpdir) None 0 (snd (a ! 2)),
             Run (lit_cmd_lld tmpdir) None 0 (snd (a ! 3)),
             Run (cp_cmd tmpdir ''lld'') None st out]"
    by (rule remote_chain_cases [where a = a and E = E and t = tmpdir
          and ip = ip and ?p1.0 = p1 and ?p2.0 = p2])
      (use issued nonzero entered in
        \<open>simp_all add: R_def a_def tmpdir_def outcome_def cmd_defs\<close>)
  moreover have "AssertionError ''Failed to copy LLD lit results back to host'' \<noteq>
      AssertionError (''llvm-lit failed on target for lld '' @ emdash @ '' see log above'')"
    by simp
  ultimately show ?thesis by blast
qed

lemma lld_copy_fails_run:
  "runs (trace (snd (test_target_llvm_clang_lld_builds lld_copy_fails_env init_state))) =
     [Run ''uname'' None 0 ''ok'',
      Run (mkdir_cmd ''/build/tmp'') None 0 ''ok'',
      Run (mount_cmd 2049 3049 ''192.168.7.1'' ''/build/tmp'') None 0 ''ok'',
      Run (lit_cmd_lld ''/build/tmp'') None 0 ''ok'',
      Run (cp_cmd ''/build/tmp'' ''lld'') None 1 ''cp: write error'']"
  by (simp add: workflow_defs prog_defs scope_defs lld_copy_fails_env_def ok_env_def)

theorem lld_copy_failure_stops_workflow_witness:
  "Run (cp_cmd (get_bb_var lld_copy_fails_env ''TMPDIR'') ''lld'') None 1 ''cp: write error''
     \<in> set (runs (trace (snd (test_target_llvm_clang_lld_builds lld_copy_fails_env init_state))))
   \<and> (1::int) \<noteq> 0
   \<and> fst (test_target_llvm_clang_lld_builds lld_copy_fails_env init_state) =
       Inl (AssertionError ''Failed to copy LLD lit results back to host'')
   \<and> length (runs (trace (snd (test_target_llvm_clang_lld_builds lld_copy_fails_env init_state)))) = 5"
proof -
  have h: "Run (cp_cmd (get_bb_var lld_copy_fails_env ''TMPDIR'') ''lld'') None 1 ''cp: write error''
     \<in> set (runs (trace (snd (test_target_llvm_clang_lld_builds lld_copy_fails_env init_state))))"
    by (simp add: lld_copy_fails_run) (simp add: lld_copy_fails_env_def ok_env_def)
  have n: "(1::int) \<noteq> 0" by simp
  show ?thesis
    using lld_copy_failure_stops_workflow [OF h n] h by auto
qed

text \<open>
  Claim C9 at a failing input: when the copy of the \<^verbatim>\<open>clang\<close> results fails, the
  assertion failure raised names LLVM, not clang.
\<close>

theorem clang_copy_failure_names_llvm:
  "fst (test_target_llvm_clang_lld_builds clang_copy_fails_env init_state) =
     Inl (AssertionError ''Failed to copy LLVM lit results back to host'')
   \<and> last (runs (trace (snd (test_target_llvm_clang_lld_builds clang_copy_fails_env init_state)))) =
     Run (cp_cmd ''/build/tmp'' ''clang'') None 1 ''cp: write error''"
  by (simp add: workflow_defs prog_defs scope_defs clang_copy_fails_env_def ok_env_def)

text \<open>
  Claim C6. On every run and for each of the three components, the copy of the result
  file is issued if and only if that component's test harness was run and returned
  status zero; when the harness returns a non-zero status the workflow raises the
  failure of that test run and the copy is never issued.
\<close>

theorem copy_iff_harness_exit_zero:
  fixes E :: env
  defines "R \<equiv> test_target_llvm_clang_lld_builds E init_state"
    and "tmpdir \<equiv> get_bb_var E ''TMPDIR''"
  shows "((\<exists>st out. Run (cp_cmd tmpdir ''lld'') None st out \<in> set (runs (trace (snd R))))
            \<longleftrightarrow> (\<exists>out. Run (lit_cmd_lld tmpdir) None 0 out \<in> set (runs (trace (snd R)))))
       \<and> ((\<exists>st out. Run (cp_cmd tmpdir ''llvm'') None st out \<in> set (runs (trace (snd R))))
            \<longleftrightarrow> (\<exists>out. Run (lit_cmd_llvm tmpdir) None 0 out \<in> set (runs (trace (snd R)))))
       \<and> ((\<exists>st out. Run (cp_cmd tmpdir ''clang'') None st out \<in> set (runs (trace (snd R))))
            \<longleftrightarrow> (\<exists>out. Run (lit_cmd_clang tmpdir) (Some 1000) 0 out \<in> set (runs (trace (snd R)))))
       \<and> (\<forall>st out. Run (lit_cmd_lld tmpdir) None st out \<in> set (runs (trace (snd R))) \<and> st \<noteq> 0 \<longrightarrow>
             fst R = Inl (AssertionError (''llvm-lit failed on target for lld '' @ emdash @ '' see log above''))
             \<and> \<not> (\<exists>st' out'. Run (cp_cmd tmpdir ''lld'') None st' out' \<in> set (runs (trace (snd R)))))
       \<and> (\<forall>st out. Run (lit_cmd_llvm tmpdir) None st out \<in> set (runs (trace (snd R))) \<and> st \<noteq> 0 \<longrightarrow>
             fst R = Inl (AssertionError (''llvm-lit failed on target for llvm '' @ emdash @ '' see log above''))
             \<and> \<not> (\<exists>st' out'. Run (cp_cmd tmpdir ''llvm'') None st' out' \<in> set (runs (trace (snd R)))))
       \<and> (\<forall>st out. Run (lit_cmd_clang tmpdir) (Some 1000) st out \<in> set (runs (trace (snd R))) \<and> st \<noteq> 0 \<longrightarrow>
             fst R = Inl (AssertionError (''llvm-lit failed on target for clang '' @ emdash @ '' see log above''))
             \<and> \<not> (\<exists>st' out'. Run (cp_cmd tmpdir ''clang'') None st' out' \<in> set (runs (trace (snd R)))))"
proof (cases E rule: target_runs_cases)
  case (no_runs e)
  then show ?thesis by (simp add: R_def)
next
  case (entered ip p1 p2)
  define a where "a = remote_answers E tmpdir ip p1 p2"
  show ?thesis
    by (rule remote_chain_cases [where a = a and E = E and t = tmpdir
          and ip = ip and ?p1.0 = p1 and ?p2.0 = p2])
      (use entered in \<open>simp_all add: R_def a_def tmpdir_def outcome_def cmd_defs\<close>)
qed

lemma llvm_lit_fails_run:
  "runs (trace (snd (test_target_llvm_clang_lld_builds llvm_lit_fails_env init_state))) =
     [Run ''uname'' None 0 ''ok'',
      Run (mkdir_cmd ''/build/tmp'') None 0 ''ok'',
      Run (mount_cmd 2049 3049 ''192.168.7.1'' ''/build/tmp'') None 0 ''ok'',
      Run (lit_cmd_lld ''/build/tmp'') None 0 ''ok'',
      Run (cp_cmd ''/build/tmp'' ''lld'') None 0 ''ok'',
      Run (lit_cmd_llvm ''/build/tmp'') None 1 ''FAIL: x.ll'']"
  by (simp add: workflow_defs prog_defs scope_defs llvm_lit_fails_env_def ok_env_def)

theorem copy_iff_harness_exit_zero_witness:
  "Run (lit_cmd_lld (get_bb_var llvm_lit_fails_env ''TMPDIR'')) None 0 ''ok''
     \<in> set (runs (trace (snd (test_target_llvm_clang_lld_builds llvm_lit_fails_env init_state))))
   \<and> (\<exists>st out. Run (cp_cmd (get_bb_var llvm_lit_fails_env ''TMPDIR'') ''lld'') None st out
         \<in> set (runs (trace (snd (test_target_llvm_clang_lld_builds llvm_lit_fails_env init_state)))))
   \<and> Run (lit_cmd_llvm (get_bb_var llvm_lit_fails_env ''TMPDIR'')) None 1 ''FAIL: x.ll''
     \<in> set (runs (trace (snd (test_target_llvm_clang_lld_builds llvm_lit_fails_env init_state))))
   \<and> (1::int) \<noteq> 0
   \<and> fst (test_target_llvm_clang_lld_builds llvm_lit_fails_env init_state) =
       Inl (AssertionError (''llvm-lit failed on target for llvm '' @ emdash @ '' see log above''))
   \<and> \<not> (\<exists>st' out'. Run (cp_cmd (get_bb_var llvm_lit_fails_env ''TMPDIR'') ''llvm'') None st' out'
         \<in> set (runs (trace (snd (test_target_llvm_clang_lld_builds llvm_lit_fails_env init_state)))))"
proof -
  have t: "get_bb_var llvm_lit_fails_env ''TMPDIR'' = ''/build/tmp''"
    by (simp add: llvm_lit_fails_env_def ok_env_def)
  have h1: "Run (lit_cmd_lld (get_bb_var llvm_lit_fails_env ''TMPDIR'')) None 0 ''ok''
     \<in> set (runs (trace (snd (test_target_llvm_clang_lld_builds llvm_lit_fails_env init_state))))"
    by (simp add: llvm_lit_fails_run t)
  have h2: "Run (lit_cmd_llvm (get_bb_var llvm_lit_fails_env ''TMPDIR'')) None 1 ''FAIL: x.ll''
     \<in> set (runs (trace (snd (test_target_llvm_clang_lld_builds llvm_lit_fails_env init_state))))"
    by (simp add: llvm_lit_fails_run t)
  have n: "(1::int) \<noteq> 0" by simp
  note c = copy_iff_harness_exit_zero [of llvm_lit_fails_env]
  from h1 have e: "\<exists>out. Run (lit_cmd_lld (get_bb_var llvm_lit_fails_env ''TMPDIR'')) None 0 out
     \<in> set (runs (trace (snd (test_target_llvm_clang_lld_builds llvm_lit_fails_env init_state))))"
    by (rule exI)
  note lld = c [THEN conjunct1, THEN iffD2, OF e]
  note llvm = c [THEN conjunct2, THEN conjunct2, THEN conjunct2, THEN conjunct2, THEN conjunct1,
      THEN spec, THEN spec, THEN mp, OF conjI [OF h2 n]]
  show ?thesis using h1 lld h2 n llvm by (intro conjI) simp_all
qed

lemma target_builds_reported:
  assumes "builds_pass E"
  shows "reported ''  llvm  build : %d s'' (trace (snd (target_builds E init_state))) =
           [py_int (time_time E 2 - time_time E 1)]"
    and "reported ''  clang build : %d s'' (trace (snd (target_builds E init_state))) =
           [py_int (time_time E 4 - time_time E 3)]"
    and "reported ''  lld   build : %d s'' (trace (snd (target_builds E init_state))) =
           [py_int (time_time E 6 - time_time E 5)]"
    and "reported ''  core-image-minimal build : %d s'' (trace (snd (target_builds E init_state))) =
           [py_int (time_time E 8 - time_time E 7)]"
    and "reported ''  TOTAL BUILD TIME : %d s'' (trace (snd (target_builds E init_state))) =
           [py_int (time_time E 9 - time_time E 0)]"
  using assms
  by (simp_all add: builds_pass_def target_builds_def init_state_def run_target_build_pass
      prog_defs eval_nat_numeral arrow_def banner_def)

text \<open>
  Claim C10, as stated, fails: a reported duration is not always the floor of the
  elapsed seconds. When the system clock is set back from 10.5 to 10 during a step,
  the elapsed time is -0.5 s, its floor is -1, and the step reports 0.
\<close>

theorem duration_not_floor_counterexample:
  "fst (run_native_check_task clock_back_env ''llvm-native'' ''check_llvm'' init_state) = Inr 0
   \<and> \<lfloor>time_time clock_back_env 1 - time_time clock_back_env 0\<rfloor> = - 1"
proof -
  have c: "\<lceil>- (1 / 2) :: real\<rceil> = 0" by (simp add: ceiling_eq_iff)
  show ?thesis
    by (simp add: run_native_check_task_def prog_defs clock_back_env_def ok_env_def init_state_def
        py_int_def c)
qed

text \<open>
  Claim C10, amended. Every reported duration is the difference of its own pair of
  clock readings, truncated towards zero: the floor when the clock has not gone back
  between the two readings, the ceiling otherwise. This holds for each timed step and
  for the totals of both workflows, which are measured by the workflow's first and last
  readings and are not the sum of the step durations; in some runs the reported total
  differs from that sum.
\<close>

theorem durations_truncate_own_readings:
  fixes E :: env and s :: state and x :: real
  shows "(bitbake E (bitbake_calls s) (recipe @ '' -c '' @ task) = None \<longrightarrow>
            fst (run_native_check_task E recipe task s) =
              Inr (py_int (time_time E (Suc (clock_reads s)) - time_time E (clock_reads s))))
       \<and> (bitbake E (bitbake_calls s) recipe = None \<longrightarrow>
            fst (run_target_build E recipe s) =
              Inr (py_int (time_time E (Suc (clock_reads s)) - time_time E (clock_reads s))))
       \<and> (bitbake E 0 ''llvm-native -c check_llvm'' = None
            \<and> bitbake E 1 ''clang-native -c check_clang'' = None
            \<and> bitbake E 2 ''lld-native -c check_lld'' = None \<longrightarrow>
            reported ''  llvm-native  -c check_llvm  : %d s''
              (trace (snd (test_native_llvm_clang_lld_lit_suites E init_state))) =
              [py_int (time_time E 2 - time_time E 1)]
          \<and> reported ''  clang-native -c check_clang : %d s''
              (trace (snd (test_native_llvm_clang_lld_lit_suites E init_state))) =
              [py_int (time_time E 4 - time_time E 3)]
          \<and> reported ''  lld-native   -c check_lld   : %d s''
              (trace (snd (test_native_llvm_clang_lld_lit_suites E init_state))) =
              [py_int (time_time E 6 - time_time E 5)]
          \<and> reported ''  TOTAL EXECUTION TIME        : %d s''
              (trace (snd (test_native_llvm_clang_lld_lit_suites E init_state))) =
              [py_int (time_time E 7 - time_time E 0)])
       \<and> (builds_pass E \<longrightarrow>
            reported ''  llvm  build : %d s'' (trace (snd (target_builds E init_state))) =
              [py_int (time_time E 2 - time_time E 1)]
          \<and> reported ''  clang build : %d s'' (trace (snd (target_builds E init_state))) =
              [py_int (time_time E 4 - time_time E 3)]
          \<and> reported ''  lld   build : %d s'' (trace (snd (target_builds E init_state))) =
              [py_int (time_time E 6 - time_time E 5)]
          \<and> reported ''  core-image-minimal build : %d s'' (trace (snd (target_builds E init_state))) =
              [py_int (time_time E 8 - time_time E 7)]
          \<and> reported ''  TOTAL BUILD TIME : %d s'' (trace (snd (target_builds E init_state))) =
              [py_int (time_time E 9 - time_time E 0)])
       \<and> (0 \<le> x \<longrightarrow> py_int x = \<lfloor>x\<rfloor>)
       \<and> (x < 0 \<longrightarrow> py_int x = \<lceil>x\<rceil>)
       \<and> (\<exists>E' d1 d2 d3 total.
            fst (test_native_llvm_clang_lld_lit_suites E' init_state) = Inr ()
          \<and> reported ''  llvm-native  -c check_llvm  : %d s''
              (trace (snd (test_native_llvm_clang_lld_lit_suites E' init_state))) = [d1]
          \<and> reported ''  clang-native -c check_clang : %d s''
              (trace (snd (test_native_llvm_clang_lld_lit_suites E' init_state))) = [d2]
          \<and> reported ''  lld-native   -c check_lld   : %d s''
              (trace (snd (test_native_llvm_clang_lld_lit_suites E' init_state))) = [d3]
          \<and> reported ''  TOTAL EXECUTION TIME        : %d s''
              (trace (snd (test_native_llvm_clang_lld_lit_suites E' init_state))) = [total]
          \<and> total \<noteq> d1 + d2 + d3)"
proof -
  have step: "bitbake E (bitbake_calls s) (recipe @ '' -c '' @ task) = None \<longrightarrow>
      fst (run_native_check_task E recipe task s) =
        Inr (py_int (time_time E (Suc (clock_reads s)) - time_time E (clock_reads s)))"
    by (simp add: run_native_check_task_def prog_defs)
  have build: "bitbake E (bitbake_calls s) recipe = None \<longrightarrow>
      fst (run_target_build E recipe s) =
        Inr (py_int (time_time E (Suc (clock_reads s)) - time_time E (clock_reads s)))"
    by (simp add: run_target_build_def prog_defs)
  have native: "reported ''  llvm-native  -c check_llvm  : %d s''
              (trace (snd (test_native_llvm_clang_lld_lit_suites E init_state))) =
              [py_int (time_time E 2 - time_time E 1)]
          \<and> reported ''  clang-native -c check_clang : %d s''
              (trace (snd (test_native_llvm_clang_lld_lit_suites E init_state))) =
              [py_int (time_time E 4 - time_time E 3)]
          \<and> reported ''  lld-native   -c check_lld   : %d s''
              (trace (snd (test_native_llvm_clang_lld_lit_suites E init_state))) =
              [py_int (time_time E 6 - time_time E 5)]
          \<and> reported ''  TOTAL EXECUTION TIME        : %d s''
              (trace (snd (test_native_llvm_clang_lld_lit_suites E init_state))) =
              [py_int (time_time E 7 - time_time E 0)]"
    if "bitbake E 0 ''llvm-native -c check_llvm'' = None"
      "bitbake E 1 ''clang-native -c check_clang'' = None"
      "bitbake E 2 ''lld-native -c check_lld'' = None"
  proof -
    from that have p: "bitbake E 0 ''llvm-native -c check_llvm'' = None"
      "bitbake E (Suc 0) ''clang-native -c check_clang'' = None"
      "bitbake E (Suc (Suc 0)) ''lld-native -c check_lld'' = None"
      by (simp_all add: eval_nat_numeral)
    show ?thesis using native_all_pass [OF p] by simp
  qed
  have target: "builds_pass E \<longrightarrow>
            reported ''  llvm  build : %d s'' (trace (snd (target_builds E init_state))) =
              [py_int (time_time E 2 - time_time E 1)]
          \<and> reported ''  clang build : %d s'' (trace (snd (target_builds E init_state))) =
              [py_int (time_time E 4 - time_time E 3)]
          \<and> reported ''  lld   build : %d s'' (trace (snd (target_builds E init_state))) =
              [py_int (time_time E 6 - time_time E 5)]
          \<and> reported ''  core-image-minimal build : %d s'' (trace (snd (target_builds E init_state))) =
              [py_int (time_time E 8 - time_time E 7)]
          \<and> reported ''  TOTAL BUILD TIME : %d s'' (trace (snd (target_builds E init_state))) =
              [py_int (time_time E 9 - time_time E 0)]"
    using target_builds_reported [of E] by simp
  have trunc: "(0 \<le> x \<longrightarrow> py_int x = \<lfloor>x\<rfloor>) \<and> (x < 0 \<longrightarrow> py_int x = \<lceil>x\<rceil>)"
    by (simp add: py_int_def)
  have differs: "\<exists>E' d1 d2 d3 total.
            fst (test_native_llvm_clang_lld_lit_suites E' init_state) = Inr ()
          \<and> reported ''  llvm-native  -c check_llvm  : %d s''
              (trace (snd (test_native_llvm_clang_lld_lit_suites E' init_state))) = [d1]
          \<and> reported ''  clang-native -c check_clang : %d s''
              (trace (snd (test_native_llvm_clang_lld_lit_suites E' init_state))) = [d2]
          \<and> reported ''  lld-native   -c check_lld   : %d s''
              (trace (snd (test_native_llvm_clang_lld_lit_suites E' init_state))) = [d3]
          \<and> reported ''  TOTAL EXECUTION TIME        : %d s''
              (trace (snd (test_native_llvm_clang_lld_lit_suites E' init_state))) = [total]
          \<and> total \<noteq> d1 + d2 + d3"
    using native_all_pass [of quarter_env]
    by (intro exI [of _ quarter_env] exI [of _ 10] exI [of _ 20] exI [of _ 30] exI [of _ 61])
      (simp add: quarter_env_def ok_env_def py_int_def eval_nat_numeral)
  show ?thesis
    using step build native target trunc differs by blast
qed

theorem durations_truncate_own_readings_witness:
  "bitbake quarter_env (bitbake_calls init_state) (''llvm-native'' @ '' -c '' @ ''check_llvm'') = None
   \<and> fst (run_native_check_task quarter_env ''llvm-native'' ''check_llvm'' init_state) = Inr 0
   \<and> bitbake quarter_env (bitbake_calls init_state) ''llvm'' = None
   \<and> fst (run_target_build quarter_env ''llvm'' init_state) = Inr 0
   \<and> bitbake quarter_env 0 ''llvm-native -c check_llvm'' = None
   \<and> bitbake quarter_env 1 ''clang-native -c check_clang'' = None
   \<and> bitbake quarter_env 2 ''lld-native -c check_lld'' = None
   \<and> reported ''  TOTAL EXECUTION TIME        : %d s''
        (trace (snd (test_native_llvm_clang_lld_lit_suites quarter_env init_state))) = [61]
   \<and> builds_pass quarter_env
   \<and> reported ''  llvm  build : %d s'' (trace (snd (target_builds quarter_env init_state))) = [10]
   \<and> (0::real) \<le> 245 / 4
   \<and> py_int (245 / 4) = 61
   \<and> (- (1 / 2) :: real) < 0
   \<and> py_int (- (1 / 2)) = 0"
proof -
  have c: "\<lceil>- (1 / 2) :: real\<rceil> = 0" by (simp add: ceiling_eq_iff)
  note t1 = durations_truncate_own_readings [where E = quarter_env and s = init_state
      and recipe = "''llvm-native''" and task = "''check_llvm''" and x = "245 / 4"]
  note t2 = durations_truncate_own_readings [where E = quarter_env and s = init_state
      and recipe = "''llvm''" and x = "- (1 / 2)"]
  have p: "bitbake quarter_env (bitbake_calls init_state) (''llvm-native'' @ '' -c '' @ ''check_llvm'') = None"
    "bitbake quarter_env (bitbake_calls init_state) ''llvm'' = None"
    "bitbake quarter_env 0 ''llvm-native -c check_llvm'' = None
       \<and> bitbake quarter_env 1 ''clang-native -c check_clang'' = None
       \<and> bitbake quarter_env 2 ''lld-native -c check_lld'' = None"
    "builds_pass quarter_env"
    by (simp_all add: quarter_env_def ok_env_def builds_pass_def)
  have x: "(0::real) \<le> 245 / 4" "(- (1 / 2) :: real) < 0" by simp_all
  note a1 = t1 [THEN conjunct1, THEN mp, OF p(1)]
  note a2 = t2 [THEN conjunct2, THEN conjunct1, THEN mp, OF p(2)]
  note a3 = t1 [THEN conjunct2, THEN conjunct2, THEN conjunct1, THEN mp, OF p(3)]
  note a4 = t1 [THEN conjunct2, THEN conjunct2, THEN conjunct2, THEN conjunct1, THEN mp, OF p(4)]
  note a5 = t1 [THEN conjunct2, THEN conjunct2, THEN conjunct2, THEN conjunct2, THEN conjunct1,
      THEN mp, OF x(1)]
  note a6 = t2 [THEN conjunct2, THEN conjunct2, THEN conjunct2, THEN conjunct2, THEN conjunct2,
      THEN conjunct1, THEN mp, OF x(2)]
  show ?thesis
    using p x a1 a2 a3 a4 a5 a6
    by (simp add: quarter_env_def ok_env_def init_state_def py_int_def eval_nat_numeral c)
qed

end
